theory Spec2Isabelle
  imports Main
begin

section \<open>Canonical lint documents (src/contracts/schemas/lintSchemas.ts)\<close>

text \<open>
  JavaScript strings are modelled as \<open>string\<close> (code units restricted to 8 bits) and the
  JavaScript numbers that carry positions and severities as \<open>int\<close>: the adapters only add 1
  to them or compare them, which is exact on the integers a tool reports.
  \<open>LintIssueSchema.severity\<close> is the enum \<open>'error' | 'warning'\<close>. The field \<open>file\<close>
  of an issue is \<open>issue_file\<close> here, \<open>file\<close> being a keyword.
\<close>

datatype Severity = SevError | SevWarning

record LintIssue =
  issue_file :: string
  line :: int
  column :: int
  severity :: Severity
  message :: string
  rule :: "string option"

record LintResult =
  timestamp :: string
  files :: "string list"
  issues :: "LintIssue list"
  errorCount :: nat
  warningCount :: nat

text \<open>
  \<open>StatixSuggestionSchema\<close> and \<open>StatixReportSchema\<close>. The fields \<open>at.from\<close>, \<open>at.to\<close>,
  \<open>note\<close> and \<open>file\<close> are prefixed, since \<open>from\<close>, \<open>note\<close> and \<open>file\<close> are keywords
  here. \<open>report_kind\<close> is kept a string: the adapter compares it with \<open>'error'\<close> and
  nothing validates the enum at run time.
\<close>

record StatixSuggestion =
  at_from :: int
  at_to :: int
  suggestion_note :: string
  suggestion_fix :: "(string \<times> string) option"

record StatixReport =
  report_file :: string
  report_kind :: string
  report_note :: string
  suggestions :: "StatixSuggestion list"

text \<open>
  \<open>NixfCursorSchema\<close>, \<open>NixfRangeSchema\<close> and the fields of \<open>NixfDiagnosticSchema\<close> that the
  adapter reads (\<open>fixes\<close>, \<open>notes\<close> and \<open>tag\<close> are never read).
\<close>

record NixfCursor =
  cur_column :: int
  cur_line :: int
  cur_offset :: int

record NixfRange =
  lCur :: NixfCursor
  rCur :: NixfCursor

record NixfDiagnostic =
  args :: "string list"
  kind :: int
  diag_message :: string
  diag_range :: NixfRange
  diag_severity :: int
  sname :: string


section \<open>JavaScript string primitives used by the adapters\<close>

text \<open>The white space and line terminators of \<open>String.prototype.trim\<close> below U+0100.\<close>

definition js_whitespace :: "char \<Rightarrow> bool" where
  "js_whitespace c \<longleftrightarrow>
     c \<in> {CHR 0x09, CHR 0x0A, CHR 0x0B, CHR 0x0C, CHR 0x0D, CHR 0x20, CHR 0xA0}"

definition trim :: "string \<Rightarrow> string" where
  "trim s = rev (dropWhile js_whitespace (rev (dropWhile js_whitespace s)))"

text \<open>\<open>s.split(sep)\<close> for a one-character separator: the empty string gives one empty piece.\<close>

fun split :: "char \<Rightarrow> string \<Rightarrow> string list" where
  "split sep [] = [[]]"
| "split sep (c # cs) =
     (if c = sep then [] # split sep cs
      else (case split sep cs of
              [] \<Rightarrow> [[c]]
            | piece # pieces \<Rightarrow> (c # piece) # pieces))"

definition starts_with :: "string \<Rightarrow> string \<Rightarrow> bool" where
  "starts_with p s \<longleftrightarrow> take (length p) s = p"

text \<open>
  \<open>s.replace(pattern, replacement)\<close> with a string pattern replaces the first occurrence
  only, and expands \<open>$$\<close>, \<open>$&\<close>, \<open>$`\<close> and \<open>$'\<close> in the replacement (there are no capture
  groups, so \<open>$1\<close> stays as it is).
\<close>

fun find_first :: "string \<Rightarrow> string \<Rightarrow> (string \<times> string) option" where
  "find_first pat [] = (if pat = [] then Some ([], []) else None)"
| "find_first pat (c # cs) =
     (if starts_with pat (c # cs) then Some ([], drop (length pat) (c # cs))
      else map_option (\<lambda>(pre, post). (c # pre, post)) (find_first pat cs))"

fun get_substitution :: "string \<Rightarrow> string \<Rightarrow> string \<Rightarrow> string \<Rightarrow> string" where
  "get_substitution matched pre post [] = []"
| "get_substitution matched pre post [c] = [c]"
| "get_substitution matched pre post (c # d # r) =
     (if c = CHR 0x24 \<and> d = CHR 0x24 then CHR 0x24 # get_substitution matched pre post r
      else if c = CHR 0x24 \<and> d = CHR 0x26 then matched @ get_substitution matched pre post r
      else if c = CHR 0x24 \<and> d = CHR 0x60 then pre @ get_substitution matched pre post r
      else if c = CHR 0x24 \<and> d = CHR 0x27 then post @ get_substitution matched pre post r
      else c # get_substitution matched pre post (d # r))"

definition replace :: "string \<Rightarrow> string \<Rightarrow> string \<Rightarrow> string" where
  "replace s pat replacement =
     (case find_first pat s of
        None \<Rightarrow> s
      | Some (pre, post) \<Rightarrow> pre @ get_substitution pat pre post replacement @ post)"


section \<open>The Statix adapter (src/linters/statix/Statix.ts)\<close>

text \<open>
  What \<open>execFileAsync\<close> can do: resolve with the captured streams, or reject with a thrown
  value. Of a thrown value the adapter looks at one thing, the property \<open>stdout\<close>:
  \<open>err_stdout = None\<close> is a value without that property (also \<open>null\<close> and values that are
  not objects), \<open>Some None\<close> the property holding \<open>undefined\<close>, \<open>Some (Some s)\<close> a string.
\<close>

record js_error =
  err_message :: string
  err_stdout :: "string option option"

datatype exec_outcome = Resolved string string | Rejected js_error

definition buildArgs :: "string list \<Rightarrow> string option \<Rightarrow> string list" where
  "buildArgs files' configPath =
     (let args' = [''check''] @ files' @ [''--output'', ''json'']
      in case configPath of
           None \<Rightarrow> args'
         | Some p \<Rightarrow> if p \<noteq> [] then args' @ [''--config'', p] else args')"

definition isExecError :: "js_error \<Rightarrow> bool" where
  "isExecError e \<longleftrightarrow> err_stdout e \<noteq> None"

text \<open>
  \<open>JSON.parse\<close> is the runtime's; it is a parameter, \<open>None\<close> where it throws. Its result has
  the type the source gives it (\<open>StatixReport\<close>). \<open>those\<close> fails as soon as one line fails,
  as the exception leaving \<open>lines.map\<close> does. A line that parses to a value of another
  shape (a number, an object without \<open>suggestions\<close>) is outside this reading: on such a
  value \<open>extractIssues\<close> throws, and \<open>lint\<close> rejects. What is stated of \<open>Statix.lint\<close> below
  is stated of the runs that resolve, and of output with a line that fails to parse.
\<close>

definition parseResults :: "(string \<Rightarrow> StatixReport option) \<Rightarrow> string option \<Rightarrow> StatixReport list" where
  "parseResults json_parse stdout =
     (case stdout of
        None \<Rightarrow> []
      | Some out \<Rightarrow>
          if trim out = [] then []
          else (let lines = filter (\<lambda>l. l \<noteq> []) (split CHR 0x0A (trim out))
                in case those (map json_parse lines) of
                     Some results \<Rightarrow> results
                   | None \<Rightarrow> []))"

text \<open>The first match of \<open>/\[([A-Z]\d+)\]/\<close>, its group 1.\<close>

definition is_upper :: "char \<Rightarrow> bool" where
  "is_upper c \<longleftrightarrow> (65::nat) \<le> of_char c \<and> of_char c \<le> (90::nat)"

definition is_digit :: "char \<Rightarrow> bool" where
  "is_digit c \<longleftrightarrow> (48::nat) \<le> of_char c \<and> of_char c \<le> (57::nat)"

fun extractRuleFromMessage :: "string \<Rightarrow> string option" where
  "extractRuleFromMessage [] = None"
| "extractRuleFromMessage (c # cs) =
     (case cs of
        u # ds \<Rightarrow>
          if c = CHR 0x5B \<and> is_upper u \<and> takeWhile is_digit ds \<noteq> []
             \<and> starts_with [CHR 0x5D] (dropWhile is_digit ds)
          then Some (u # takeWhile is_digit ds)
          else extractRuleFromMessage cs
      | [] \<Rightarrow> None)"

definition toIssue :: "StatixReport \<Rightarrow> StatixSuggestion \<Rightarrow> LintIssue" where
  "toIssue report suggestion' =
     \<lparr> issue_file = report_file report,
       line = 1,
       column = at_from suggestion',
       severity = (if report_kind report = ''error'' then SevError else SevWarning),
       message = suggestion_note suggestion',
       rule = extractRuleFromMessage (suggestion_note suggestion') \<rparr>"

definition extractIssues :: "StatixReport list \<Rightarrow> LintIssue list" where
  "extractIssues results =
     concat (map (\<lambda>report. map (\<lambda>suggestion'. toIssue report suggestion') (suggestions report)) results)"

definition countBySeverity :: "LintIssue list \<Rightarrow> Severity \<Rightarrow> nat" where
  "countBySeverity issues' severity' = length (filter (\<lambda>i. severity i = severity') issues')"

definition createLintData :: "string \<Rightarrow> string list \<Rightarrow> StatixReport list \<Rightarrow> LintResult" where
  "createLintData timestamp' files' results =
     (let issues' = extractIssues results
      in \<lparr> timestamp = timestamp',
           files = files',
           issues = issues',
           errorCount = countBySeverity issues' SevError,
           warningCount = countBySeverity issues' SevWarning \<rparr>)"

text \<open>
  \<open>Statix.lint\<close>. The clock and the process are parameters; \<open>Inl\<close> is the rejected promise.
  When the process resolves, its output is not read.
\<close>

definition Statix_lint ::
  "(string \<Rightarrow> StatixReport option) \<Rightarrow> string \<Rightarrow> (string \<Rightarrow> string list \<Rightarrow> exec_outcome)
     \<Rightarrow> string list \<Rightarrow> string option \<Rightarrow> js_error + LintResult" where
  "Statix_lint json_parse now execFileAsync filePaths configPath =
     (let timestamp' = now;
          args' = buildArgs filePaths configPath
      in case execFileAsync ''statix'' args' of
           Resolved out err \<Rightarrow> Inr (createLintData timestamp' filePaths [])
         | Rejected error \<Rightarrow>
             if \<not> isExecError error then Inl error
             else Inr (createLintData timestamp' filePaths
                         (parseResults json_parse (case err_stdout error of
                                                     Some so \<Rightarrow> so | None \<Rightarrow> None))))"


section \<open>The nixf-tidy adapter (src/linters/nixf/NixfTidy.ts)\<close>

text \<open>
  What one run of \<open>lintFile\<close> meets, the event that settles its promise first:
  \<open>readFileSync\<close> throws, the process emits \<open>error\<close>, or it closes with an exit code
  (\<open>None\<close> is \<open>null\<close>, a process ended by a signal) and the collected streams.
\<close>

datatype nixf_run =
    ReadFailed string
  | SpawnFailed string
  | Closed "int option" string string

text \<open>\<open>JSON.parse(stdout)\<close> gives an array of diagnostics or one diagnostic.\<close>

datatype nixf_json = JArray "NixfDiagnostic list" | JSingle NixfDiagnostic

definition lintFile ::
  "(string \<Rightarrow> nixf_json option) \<Rightarrow> string \<Rightarrow> nixf_run \<Rightarrow> string + NixfDiagnostic list" where
  "lintFile json_parse filePath run =
     (case run of
        ReadFailed readError \<Rightarrow> Inl (''Failed to read file '' @ filePath @ '': '' @ readError)
      | SpawnFailed m \<Rightarrow> Inl (''Failed to spawn nixf-tidy: '' @ m)
      | Closed code stdout stderr \<Rightarrow>
          if code \<noteq> Some 0 \<and> stderr \<noteq> [] then Inl (''nixf-tidy failed: '' @ stderr)
          else if trim stdout = [] then Inr []
          else (case json_parse stdout of
                  None \<Rightarrow> Inl ''Failed to parse nixf-tidy output''
                | Some (JArray diagnostics) \<Rightarrow> Inr diagnostics
                | Some (JSingle diagnostic) \<Rightarrow> Inr [diagnostic]))"

definition convertSeverity :: "int \<Rightarrow> Severity" where
  "convertSeverity nixfSeverity = (if nixfSeverity \<le> 1 then SevError else SevWarning)"

definition formatMessage :: "NixfDiagnostic \<Rightarrow> string" where
  "formatMessage diagnostic =
     foldl (\<lambda>message' arg. replace message' ''{}'' arg) (diag_message diagnostic) (args diagnostic)"

definition convertDiagnosticsToIssues :: "string \<Rightarrow> NixfDiagnostic list \<Rightarrow> LintIssue list" where
  "convertDiagnosticsToIssues filePath diagnostics =
     map (\<lambda>diagnostic.
            \<lparr> issue_file = filePath,
              line = cur_line (lCur (diag_range diagnostic)) + 1,
              column = cur_column (lCur (diag_range diagnostic)) + 1,
              severity = convertSeverity (diag_severity diagnostic),
              message = formatMessage diagnostic,
              rule = Some (sname diagnostic) \<rparr>) diagnostics"

definition NixfTidy_countBySeverity :: "LintIssue list \<Rightarrow> Severity \<Rightarrow> nat" where
  "NixfTidy_countBySeverity issues' severity' =
     length (filter (\<lambda>issue. severity issue = severity') issues')"

text \<open>
  The loop of \<open>NixfTidy.lint\<close> over the files, \<open>issues'\<close> the list it pushes to. A rejected
  \<open>lintFile\<close> is caught inside the loop (and logged with \<open>console.warn\<close>); the file is
  skipped.
\<close>

fun lint_loop ::
  "(string \<Rightarrow> nixf_json option) \<Rightarrow> (string \<Rightarrow> nixf_run) \<Rightarrow> string list \<Rightarrow> LintIssue list
     \<Rightarrow> LintIssue list" where
  "lint_loop json_parse spawn [] issues' = issues'"
| "lint_loop json_parse spawn (filePath # rest) issues' =
     (case lintFile json_parse filePath (spawn filePath) of
        Inr diagnostics \<Rightarrow>
          lint_loop json_parse spawn rest (issues' @ convertDiagnosticsToIssues filePath diagnostics)
      | Inl error \<Rightarrow> lint_loop json_parse spawn rest issues')"

definition NixfTidy_lint ::
  "(string \<Rightarrow> nixf_json option) \<Rightarrow> string \<Rightarrow> (string \<Rightarrow> nixf_run) \<Rightarrow> string list
     \<Rightarrow> js_error + LintResult" where
  "NixfTidy_lint json_parse now spawn filePaths =
     (let timestamp' = now;
          issues' = lint_loop json_parse spawn filePaths []
      in Inr \<lparr> timestamp = timestamp',
               files = filePaths,
               issues = issues',
               errorCount = NixfTidy_countBySeverity issues' SevError,
               warningCount = NixfTidy_countBySeverity issues' SevWarning \<rparr>)"


section \<open>The nix-unit reporter (reporters/nix/src/tdd-guard-nix.sh)\<close>

text \<open>
  The script's strings are byte strings. A line is one element of the array the parser is
  called with; \<open>[[:space:]]\<close> is the POSIX class (space, tab, newline, vertical tab, form
  feed, carriage return) and the glyphs are their UTF-8 bytes.
\<close>

datatype State = Passed | Failed

record TestError =
  error_message :: string

record TestCase =
  name :: string
  fullName :: string
  state :: State
  errors :: "TestError list"

record TestModule =
  moduleId :: string
  tests :: "TestCase list"

record TestResult =
  testModules :: "TestModule list"
  reason :: State

definition is_space :: "char \<Rightarrow> bool" where
  "is_space c \<longleftrightarrow> c \<in> {CHR 0x20, CHR 0x09, CHR 0x0A, CHR 0x0B, CHR 0x0C, CHR 0x0D}"

definition check_mark :: string where
  "check_mark = [CHR 0xE2, CHR 0x9C, CHR 0x85]"

definition cross_mark :: string where
  "cross_mark = [CHR 0xE2, CHR 0x9D, CHR 0x8C]"

definition party_popper :: string where
  "party_popper = [CHR 0xF0, CHR 0x9F, CHR 0x8E, CHR 0x89]"

definition crying_face :: string where
  "crying_face = [CHR 0xF0, CHR 0x9F, CHR 0x98, CHR 0xA2]"

subsection \<open>The regular expressions of the parser\<close>

text \<open>\<open>^[[:space:]]*$\<close>\<close>

definition is_blank :: "string \<Rightarrow> bool" where
  "is_blank l \<longleftrightarrow> list_all is_space l"

text \<open>
  \<open>^(glyph1|glyph2)[[:space:]]+\<close> and what follows: the glyph matched and the rest of the
  line after the white space, \<open>None\<close> without a glyph or without white space after it.
\<close>

definition after_glyph :: "string \<Rightarrow> string \<Rightarrow> string \<Rightarrow> (string \<times> string) option" where
  "after_glyph glyph1 glyph2 l =
     (let glyph = (if starts_with glyph1 l then Some glyph1
                   else if starts_with glyph2 l then Some glyph2 else None)
      in case glyph of
           None \<Rightarrow> None
         | Some g \<Rightarrow>
             (let rest = drop (length g) l
              in if takeWhile is_space rest \<noteq> [] then Some (g, dropWhile is_space rest)
                 else None))"

text \<open>
  \<open>^(check|cross)[[:space:]]+([^[:space:]]+)\<close>: groups 1 and 2, the status glyph and the
  test name.
\<close>

definition match_test_line :: "string \<Rightarrow> (string \<times> string) option" where
  "match_test_line l =
     (case after_glyph check_mark cross_mark l of
        None \<Rightarrow> None
      | Some (status_emoji, rest) \<Rightarrow>
          (let test_name = takeWhile (\<lambda>c. \<not> is_space c) rest
           in if test_name \<noteq> [] then Some (status_emoji, test_name) else None))"

text \<open>
  \<open>^(party|crying)[[:space:]]+([0-9]+)/([0-9]+)[[:space:]]+successful\<close>: groups 1, 2
  and 3.
\<close>

definition match_summary_line :: "string \<Rightarrow> (string \<times> string \<times> string) option" where
  "match_summary_line l =
     (case after_glyph party_popper crying_face l of
        None \<Rightarrow> None
      | Some (emoji, rest) \<Rightarrow>
          (let passed' = takeWhile is_digit rest;
               rest1 = dropWhile is_digit rest;
               total' = takeWhile is_digit (drop 1 rest1);
               rest2 = dropWhile is_digit (drop 1 rest1)
           in if passed' \<noteq> [] \<and> starts_with ''/'' rest1 \<and> total' \<noteq> []
                 \<and> takeWhile is_space rest2 \<noteq> []
                 \<and> starts_with ''successful'' (dropWhile is_space rest2)
              then Some (emoji, passed', total') else None))"

text \<open>\<open>error:|Error:|syntax[[:space:]]+error\<close>, anywhere in the line.\<close>

fun contains :: "string \<Rightarrow> string \<Rightarrow> bool" where
  "contains p [] \<longleftrightarrow> p = []"
| "contains p (c # cs) \<longleftrightarrow> starts_with p (c # cs) \<or> contains p cs"

fun contains_syntax_error :: "string \<Rightarrow> bool" where
  "contains_syntax_error [] \<longleftrightarrow> False"
| "contains_syntax_error (c # cs) \<longleftrightarrow>
     (starts_with ''syntax'' (c # cs)
      \<and> takeWhile is_space (drop 6 (c # cs)) \<noteq> []
      \<and> starts_with ''error'' (dropWhile is_space (drop 6 (c # cs))))
     \<or> contains_syntax_error cs"

definition match_error_line :: "string \<Rightarrow> bool" where
  "match_error_line l \<longleftrightarrow>
     contains ''error:'' l \<or> contains ''Error:'' l \<or> contains_syntax_error l"

text \<open>
  \<open>sed 's/\x1b\[[0-9;]*m//g'\<close>, and the command substitution around it, which drops the
  trailing newlines of what it captures.
\<close>

definition is_sgr_param :: "char \<Rightarrow> bool" where
  "is_sgr_param c \<longleftrightarrow> is_digit c \<or> c = CHR 0x3B"

function strip_ansi :: "string \<Rightarrow> string" where
  "strip_ansi [] = []"
| "strip_ansi (c # cs) =
     (if c = CHR 0x1B \<and> starts_with [CHR 0x5B] cs
         \<and> starts_with ''m'' (dropWhile is_sgr_param (drop 1 cs))
      then strip_ansi (drop 1 (dropWhile is_sgr_param (drop 1 cs)))
      else c # strip_ansi cs)"
  by pat_completeness auto
termination
proof (relation "measure length")
  fix c :: char and cs :: string
  have "length (dropWhile is_sgr_param (drop 1 cs)) \<le> length (drop 1 cs)"
    by (rule length_dropWhile_le)
  then show "(drop 1 (dropWhile is_sgr_param (drop 1 cs)), c # cs) \<in> measure length"
    by simp
qed simp_all

definition strip_trailing_newlines :: "string \<Rightarrow> string" where
  "strip_trailing_newlines s = rev (dropWhile (\<lambda>c. c = CHR 0x0A) (rev s))"

subsection \<open>The JSON builders\<close>

definition create_test_error :: "string \<Rightarrow> TestError" where
  "create_test_error message' = \<lparr> error_message = message' \<rparr>"

text \<open>Without errors the key \<open>errors\<close> is left out of the object: the empty list here.\<close>

definition create_test :: "string \<Rightarrow> string \<Rightarrow> State \<Rightarrow> TestError list \<Rightarrow> TestCase" where
  "create_test name' full_name state' errors' =
     \<lparr> name = name', fullName = full_name, state = state', errors = errors' \<rparr>"

definition create_test_module :: "string \<Rightarrow> TestCase list \<Rightarrow> TestModule" where
  "create_test_module module_id' tests' = \<lparr> moduleId = module_id', tests = tests' \<rparr>"

definition create_test_result :: "TestModule list \<Rightarrow> State \<Rightarrow> TestResult" where
  "create_test_result modules reason' = \<lparr> testModules = modules, reason = reason' \<rparr>"

subsection \<open>\<open>parse_and_save_output\<close>\<close>

text \<open>The local variables of the function.\<close>

record parser =
  current_tests :: "TestCase list"
  overall_reason :: State
  has_tests :: bool
  module_id :: string
  current_test_name :: string
  current_error_details :: string
  in_error_section :: bool

definition initial :: parser where
  "initial =
     \<lparr> current_tests = [], overall_reason = Passed, has_tests = False, module_id = ''tests'',
       current_test_name = [], current_error_details = [], in_error_section = False \<rparr>"

text \<open>
  ``Save any previous error details'': the pending failed test is appended when a new test
  line arrives, with one error record if details were collected and with none otherwise.
\<close>

definition save_previous :: "parser \<Rightarrow> parser" where
  "save_previous st =
     (if current_test_name st \<noteq> [] \<and> in_error_section st then
        (let errors' = (if current_error_details st \<noteq> []
                        then [create_test_error (current_error_details st)] else [])
         in st\<lparr> current_tests := current_tests st
                    @ [create_test (current_test_name st)
                         (module_id st @ ''.'' @ current_test_name st) Failed errors'],
                 current_error_details := [],
                 in_error_section := False \<rparr>)
      else st)"

text \<open>
  The separator written between two detail lines is \<open>"\n"\<close> inside double quotes, which the
  shell keeps as the two characters backslash and n.
\<close>

definition collect_error_detail :: "parser \<Rightarrow> string \<Rightarrow> parser" where
  "collect_error_detail st line' =
     (let clean_line = strip_trailing_newlines (strip_ansi line')
      in if clean_line \<noteq> [] \<and> \<not> is_blank clean_line then
           (if current_error_details st \<noteq> []
            then st\<lparr> current_error_details :=
                       current_error_details st @ [CHR 0x5C, CHR ''n''] @ clean_line \<rparr>
            else st\<lparr> current_error_details := clean_line \<rparr>)
         else st)"

text \<open>One turn of the \<open>for\<close> loop: the two \<open>continue\<close> guards, then the \<open>if\<close>/\<open>elif\<close> chain.\<close>

definition parse_line :: "parser \<Rightarrow> string \<Rightarrow> parser" where
  "parse_line st line' =
     (if \<not> (line' \<noteq> [] \<and> \<not> is_blank line') then st
      else if starts_with ''warning:'' line' then st
      else case match_test_line line' of
        Some (status_emoji, test_name) \<Rightarrow>
          (let st1 = (save_previous st)\<lparr> has_tests := True, current_test_name := test_name \<rparr>
           in if status_emoji = check_mark
              then st1\<lparr> current_tests := current_tests st1
                           @ [create_test test_name (module_id st1 @ ''.'' @ test_name) Passed []],
                        current_test_name := [] \<rparr>
              else st1\<lparr> overall_reason := Failed, in_error_section := True \<rparr>)
      | None \<Rightarrow>
          if in_error_section st then collect_error_detail st line'
          else (case match_summary_line line' of
                  Some (emoji, passed', total') \<Rightarrow>
                    if emoji = crying_face \<or> passed' \<noteq> total'
                    then st\<lparr> overall_reason := Failed \<rparr> else st
                | None \<Rightarrow>
                    if match_error_line line' then
                      (let st1 = st\<lparr> overall_reason := Failed \<rparr>
                       in if \<not> has_tests st1
                          then st1\<lparr> current_tests := current_tests st1
                                       @ [create_test ''evaluation'' ''compilation.evaluation'' Failed
                                            [create_test_error line']],
                                    module_id := ''compilation'',
                                    has_tests := True \<rparr>
                          else st1)
                    else st))"

text \<open>
  After the loop: ``Handle any remaining failing test'', then ``If no tests were found but
  we have output, create an error module'' with every line of the input, then the module
  and the result document, which \<open>save_test_results\<close> writes.
\<close>

definition remaining_test :: "parser \<Rightarrow> parser" where
  "remaining_test st =
     (if current_test_name st \<noteq> [] \<and> in_error_section st then
        (let errors' = (if current_error_details st \<noteq> []
                        then [create_test_error (current_error_details st)]
                        else [create_test_error ''Test failed''])
         in st\<lparr> current_tests := current_tests st
                    @ [create_test (current_test_name st)
                         (module_id st @ ''.'' @ current_test_name st) Failed errors'] \<rparr>)
      else st)"

definition error_module :: "string list \<Rightarrow> parser \<Rightarrow> parser" where
  "error_module lines st =
     (if \<not> has_tests st \<and> length lines > 0 then
        (let error_messages =
               strip_trailing_newlines (concat (map (\<lambda>l. l @ [CHR 0x0A]) lines))
         in st\<lparr> current_tests := current_tests st
                    @ [create_test ''evaluation'' ''compilation.evaluation'' Failed
                         [create_test_error error_messages]],
                 module_id := ''compilation'',
                 overall_reason := Failed \<rparr>)
      else st)"

definition parse_and_save_output :: "string list \<Rightarrow> TestResult" where
  "parse_and_save_output lines =
     (let st = error_module lines (remaining_test (foldl parse_line initial lines));
          test_modules = (if length (current_tests st) > 0
                          then [create_test_module (module_id st) (current_tests st)] else [])
      in create_test_result test_modules (overall_reason st))"

subsection \<open>The two ways the output is captured\<close>

text \<open>\<open>limit_output\<close> is \<open>head -n "$MAX_OUTPUT_LINES"\<close>.\<close>

definition limit_output :: "nat \<Rightarrow> string list \<Rightarrow> string list" where
  "limit_output MAX_OUTPUT_LINES lines = take MAX_OUTPUT_LINES lines"

text \<open>
  Without \<open>--passthrough\<close> the array is filled by \<open>mapfile\<close> from the process substitution
  \<open>run_with_limits nix-unit ... 2>&1 | limit_output\<close>. \<open>mapfile\<close> succeeds whatever the
  pipeline's status was, so the branch after \<open>if ! mapfile\<close> is not taken, and the array
  goes to the parser as it is.
\<close>

definition direct_capture :: "nat \<Rightarrow> string list \<Rightarrow> string list" where
  "direct_capture MAX_OUTPUT_LINES toolchain_output = limit_output MAX_OUTPUT_LINES toolchain_output"

text \<open>
  With \<open>--passthrough\<close> the lines of standard input are read by
  \<open>while IFS= read -r line && [[ $line_count -lt $MAX_OUTPUT_LINES ]]\<close>. The script runs
  under \<open>set -e\<close>, and the last command of the loop body, \<open>((line_count++))\<close>, has exit
  status 1 when the value of the expression, the count before the increment, is 0: the
  script then exits with status 1 (\<open>Inl 1\<close>). The result is the array and the count.
\<close>

fun passthrough_loop :: "nat \<Rightarrow> string list \<Rightarrow> string list \<Rightarrow> nat \<Rightarrow> nat + string list \<times> nat" where
  "passthrough_loop MAX_OUTPUT_LINES [] output_lines line_count = Inr (output_lines, line_count)"
| "passthrough_loop MAX_OUTPUT_LINES (line' # stdin) output_lines line_count =
     (if line_count < MAX_OUTPUT_LINES then
        (if line_count = 0 then Inl 1
         else passthrough_loop MAX_OUTPUT_LINES stdin (output_lines @ [line']) (line_count + 1))
      else Inr (output_lines, line_count))"

definition passthrough_capture :: "nat \<Rightarrow> string list \<Rightarrow> nat + string list" where
  "passthrough_capture MAX_OUTPUT_LINES stdin =
     (case passthrough_loop MAX_OUTPUT_LINES stdin [] 0 of
        Inl status \<Rightarrow> Inl status
      | Inr (output_lines, line_count) \<Rightarrow>
          if line_count \<ge> MAX_OUTPUT_LINES
          then Inr (output_lines @ [''Warning: Output truncated - too many lines''])
          else Inr output_lines)"


section \<open>Notions used to state the properties\<close>

text \<open>Every test case of a result document, module after module.\<close>

definition all_tests :: "TestResult \<Rightarrow> TestCase list" where
  "all_tests result = concat (map tests (testModules result))"

text \<open>
  The cross-checks of the parser, read off the input alone: some line that is not skipped,
  is not a test line and is met outside an error section (\<open>collecting\<close> is false at the start
  and after a passing test line, true after a failing one) is a summary line with the
  crying face or with two different counts, or is no summary line and matches the error
  pattern.
\<close>

fun cross_check :: "bool \<Rightarrow> string list \<Rightarrow> bool" where
  "cross_check collecting [] \<longleftrightarrow> False"
| "cross_check collecting (l # ls) \<longleftrightarrow>
     (if l = [] \<or> is_blank l \<or> starts_with ''warning:'' l then cross_check collecting ls
      else case match_test_line l of
             Some (status_emoji, test_name) \<Rightarrow> cross_check (status_emoji \<noteq> check_mark) ls
           | None \<Rightarrow>
               if collecting then cross_check collecting ls
               else (case match_summary_line l of
                       Some (emoji, passed', total') \<Rightarrow> emoji = crying_face \<or> passed' \<noteq> total'
                     | None \<Rightarrow> match_error_line l)
                    \<or> cross_check collecting ls)"

text \<open>A process that always rejects with the same value, and one that meets the same run
  for every file.\<close>

definition rejects :: "js_error \<Rightarrow> string \<Rightarrow> string list \<Rightarrow> exec_outcome" where
  "rejects error command args' = Rejected error"

definition every_file :: "nixf_run \<Rightarrow> string \<Rightarrow> nixf_run" where
  "every_file run filePath = run"

text \<open>Native diagnostics taken from the adapters' own tests, and one at offset 0.\<close>

definition inherit_suggestion :: StatixSuggestion where
  "inherit_suggestion =
     \<lparr> at_from = 10, at_to = 20, suggestion_note = ''manual inherit [W04]'',
       suggestion_fix = Some (''use automatic inherit'', ''inherit foo;'') \<rparr>"

definition inherit_report :: StatixReport where
  "inherit_report =
     \<lparr> report_file = ''/path/to/test.nix'', report_kind = ''warn'',
       report_note = ''Found issue [W04]: manual inherit'',
       suggestions = [inherit_suggestion] \<rparr>"

definition origin_report :: StatixReport where
  "origin_report =
     \<lparr> report_file = ''/path/to/error.nix'', report_kind = ''error'',
       report_note = ''Found critical issue [E01]: syntax error'',
       suggestions = [\<lparr> at_from = 0, at_to = 15, suggestion_note = ''syntax error [E01]'',
                        suggestion_fix = None \<rparr>] \<rparr>"

definition unused_diagnostic :: NixfDiagnostic where
  "unused_diagnostic =
     \<lparr> args = [''unused''], kind = 2, diag_message = ''definition {} is not used'',
       diag_range = \<lparr> lCur = \<lparr> cur_column = 4, cur_line = 0, cur_offset = 4 \<rparr>,
                      rCur = \<lparr> cur_column = 13, cur_line = 0, cur_offset = 13 \<rparr> \<rparr>,
       diag_severity = 2, sname = ''sema-unused-def-let'' \<rparr>"

text \<open>The texts that stand for their JSON on the adapters' standard output.\<close>

definition inherit_json :: string where
  "inherit_json = ''{file:/path/to/test.nix,report_kind:warn,suggestions:[{at:{from:10,to:20}}]}''"

definition origin_json :: string where
  "origin_json = ''{file:/path/to/error.nix,report_kind:error,suggestions:[{at:{from:0,to:15}}]}''"

definition unused_json :: string where
  "unused_json = ''[{range:{lCur:{column:4,line:0,offset:4}},severity:2,sname:sema-unused-def-let}]''"

definition exec_error :: "string \<Rightarrow> js_error" where
  "exec_error out = \<lparr> err_message = ''Command failed'', err_stdout = Some (Some out) \<rparr>"

text \<open>One well-formed line followed by one that is not JSON, and two well-formed lines.\<close>

definition mixed_stdout :: string where
  "mixed_stdout = inherit_json @ [CHR 0x0A] @ ''invalid json output''"

definition two_reports_stdout :: string where
  "two_reports_stdout = inherit_json @ [CHR 0x0A] @ origin_json"

text \<open>The documents the two adapters give on these inputs.\<close>

definition sample_time :: string where
  "sample_time = ''2025-09-12T10:00:00.000Z''"

definition statix_document :: LintResult where
  "statix_document =
     \<lparr> timestamp = sample_time, files = [''test.nix'', ''error.nix''],
       issues =
         [\<lparr> issue_file = ''/path/to/test.nix'', line = 1, column = 10, severity = SevWarning,
             message = ''manual inherit [W04]'', rule = Some ''W04'' \<rparr>,
          \<lparr> issue_file = ''/path/to/error.nix'', line = 1, column = 0, severity = SevError,
             message = ''syntax error [E01]'', rule = Some ''E01'' \<rparr>],
       errorCount = 1, warningCount = 1 \<rparr>"

definition nixf_document :: LintResult where
  "nixf_document =
     \<lparr> timestamp = sample_time, files = [''a.nix''],
       issues =
         [\<lparr> issue_file = ''a.nix'', line = 1, column = 5, severity = SevWarning,
             message = ''definition unused is not used'',
             rule = Some ''sema-unused-def-let'' \<rparr>],
       errorCount = 0, warningCount = 1 \<rparr>"

definition clean_document :: "string list \<Rightarrow> LintResult" where
  "clean_document filePaths =
     \<lparr> timestamp = sample_time, files = filePaths, issues = [], errorCount = 0,
       warningCount = 0 \<rparr>"


text \<open>
  Two properties of the parser's variables used in the proofs. A failed test is \<open>due\<close> when
  one is already in \<open>current_tests\<close> or one is pending, to be appended at the next test line
  or after the loop. The variables are \<open>coherent\<close> when a pending test has a name.
\<close>

definition due :: "parser \<Rightarrow> bool" where
  "due st \<longleftrightarrow> list_ex (\<lambda>t. state t = Failed) (current_tests st) \<or> in_error_section st"

definition coherent :: "parser \<Rightarrow> bool" where
  "coherent st \<longleftrightarrow> \<not> in_error_section st \<or> current_test_name st \<noteq> []"

text \<open>The synthetic test of an evaluation failure, with its one error record.\<close>

definition evaluation_test :: "string \<Rightarrow> TestCase" where
  "evaluation_test message' =
     \<lparr> name = ''evaluation'', fullName = ''compilation.evaluation'', state = Failed,
       errors = [\<lparr> error_message = message' \<rparr>] \<rparr>"

text \<open>
  The variables of the parser as long as no test line was read: no error section is open,
  and either nothing was recorded yet, or the synthetic test was, for one of the \<open>lines\<close>
  that matches the error pattern.
\<close>

definition evaluation_only :: "string list \<Rightarrow> parser \<Rightarrow> bool" where
  "evaluation_only lines st \<longleftrightarrow>
     \<not> in_error_section st \<and>
     (\<not> has_tests st \<and> current_tests st = []
      \<or> has_tests st \<and> overall_reason st = Failed \<and> module_id st = ''compilation''
         \<and> list_ex (\<lambda>l. match_error_line l \<and> current_tests st = [evaluation_test l]) lines)"

text \<open>Inputs of the parser: the five lines of the specification's example, a passing run
  whose summary line counts two tests, and an evaluation failure.\<close>

definition five_lines :: "string list" where
  "five_lines =
     [check_mark @ '' testA'', cross_mark @ '' testB'', ''detail1'', ''detail2'',
      party_popper @ '' 1/2 successful'']"

definition one_of_two :: "string list" where
  "one_of_two = [check_mark @ '' testA'', party_popper @ '' 1/2 successful'']"

definition syntax_error_lines :: "string list" where
  "syntax_error_lines = [''error: syntax error, unexpected token'', ''at tests.nix:8:20'']"


section \<open>Facts about the two lint adapters\<close>

lemma those_None: "None \<in> set xs \<Longrightarrow> those xs = None"
  by (induction xs) (auto split: option.splits)

lemma parseResults_failing_line:
  assumes "l \<in> set (filter (\<lambda>l. l \<noteq> []) (split CHR 0x0A (trim out)))"
    and "json_parse l = None"
  shows "parseResults json_parse (Some out) = []"
proof -
  have "None \<in> set (map json_parse (filter (\<lambda>l. l \<noteq> []) (split CHR 0x0A (trim out))))"
    using assms by (metis image_eqI set_map)
  then have "those (map json_parse (filter (\<lambda>l. l \<noteq> []) (split CHR 0x0A (trim out)))) = None"
    by (rule those_None)
  then show ?thesis
    by (simp add: parseResults_def Let_def)
qed

lemma createLintData_empty:
  "createLintData now filePaths [] =
     \<lparr> timestamp = now, files = filePaths, issues = [], errorCount = 0, warningCount = 0 \<rparr>"
  by (simp add: createLintData_def extractIssues_def countBySeverity_def Let_def)

lemma createLintData_issues: "issues (createLintData now filePaths results) = extractIssues results"
  by (simp add: createLintData_def Let_def)

lemma Statix_lint_rejected:
  assumes "execFileAsync ''statix'' (buildArgs filePaths configPath) = Rejected e"
    and "err_stdout e = Some so"
  shows "Statix_lint json_parse now execFileAsync filePaths configPath =
           Inr (createLintData now filePaths (parseResults json_parse so))"
  using assms by (simp add: Statix_lint_def Let_def isExecError_def)

lemma Statix_lint_rethrown:
  assumes "execFileAsync ''statix'' (buildArgs filePaths configPath) = Rejected e"
    and "err_stdout e = None"
  shows "Statix_lint json_parse now execFileAsync filePaths configPath = Inl e"
  using assms by (simp add: Statix_lint_def Let_def isExecError_def)

lemma Statix_lint_resolved:
  assumes "execFileAsync ''statix'' (buildArgs filePaths configPath) = Resolved out err"
  shows "Statix_lint json_parse now execFileAsync filePaths configPath =
           Inr (createLintData now filePaths [])"
  using assms by (simp add: Statix_lint_def Let_def)

text \<open>Whatever \<open>Statix.lint\<close> returns was assembled by \<open>createLintData\<close>, from no report when
  the process resolved and from the reports parsed off the error's \<open>stdout\<close> otherwise.\<close>

lemma Statix_lint_cases:
  assumes "Statix_lint json_parse now execFileAsync filePaths configPath = Inr r"
  obtains "r = createLintData now filePaths []"
  | e so where "execFileAsync ''statix'' (buildArgs filePaths configPath) = Rejected e"
      and "err_stdout e = Some so"
      and "r = createLintData now filePaths (parseResults json_parse so)"
proof (cases "execFileAsync ''statix'' (buildArgs filePaths configPath)")
  case (Resolved out err)
  then have "Statix_lint json_parse now execFileAsync filePaths configPath =
               Inr (createLintData now filePaths [])"
    by (simp add: Statix_lint_def Let_def)
  with assms that(1) show ?thesis
    by simp
next
  case (Rejected e)
  show ?thesis
  proof (cases "err_stdout e")
    case None
    with Rejected have "Statix_lint json_parse now execFileAsync filePaths configPath = Inl e"
      by (simp add: Statix_lint_def Let_def isExecError_def)
    with assms show ?thesis
      by simp
  next
    case (Some so)
    with Rejected have "Statix_lint json_parse now execFileAsync filePaths configPath =
               Inr (createLintData now filePaths (parseResults json_parse so))"
      by (simp add: Statix_lint_def Let_def isExecError_def)
    with assms that(2) Rejected Some show ?thesis
      by simp
  qed
qed

lemma toIssue_line: "line (toIssue report s) = 1"
  by (simp add: toIssue_def)

lemma toIssue_column: "column (toIssue report s) = at_from s"
  by (simp add: toIssue_def)

lemma extractIssues_line: "i \<in> set (extractIssues results) \<Longrightarrow> line i = 1"
  by (auto simp: extractIssues_def toIssue_line)

lemma extractIssues_column:
  "map column (extractIssues results) = concat (map (\<lambda>report. map at_from (suggestions report)) results)"
  by (induction results) (simp_all add: extractIssues_def toIssue_column comp_def)

text \<open>The loop of \<open>NixfTidy.lint\<close> appends, file after file, the issues of the files whose
  \<open>lintFile\<close> resolved.\<close>

lemma lint_loop_concat:
  "lint_loop json_parse spawn filePaths acc =
     acc @ concat (map (\<lambda>f. case lintFile json_parse f (spawn f) of
                                Inr ds \<Rightarrow> convertDiagnosticsToIssues f ds
                              | Inl e \<Rightarrow> []) filePaths)"
  by (induction filePaths arbitrary: acc) (simp_all split: sum.splits)

lemma NixfTidy_lint_issues:
  assumes "NixfTidy_lint json_parse now spawn filePaths = Inr r"
  shows "issues r = lint_loop json_parse spawn filePaths []"
  using assms by (auto simp: NixfTidy_lint_def Let_def)

lemma NixfTidy_issue_origin:
  assumes "i \<in> set (lint_loop json_parse spawn filePaths [])"
  obtains f ds d where "f \<in> set filePaths" and "lintFile json_parse f (spawn f) = Inr ds"
    and "d \<in> set ds"
    and "line i = cur_line (lCur (diag_range d)) + 1"
    and "column i = cur_column (lCur (diag_range d)) + 1"
proof -
  from assms obtain f where f: "f \<in> set filePaths"
    and i: "i \<in> set (case lintFile json_parse f (spawn f) of
                        Inr ds \<Rightarrow> convertDiagnosticsToIssues f ds | Inl e \<Rightarrow> [])"
    by (auto simp: lint_loop_concat)
  from i obtain ds where ds: "lintFile json_parse f (spawn f) = Inr ds"
    and "i \<in> set (convertDiagnosticsToIssues f ds)"
    by (cases "lintFile json_parse f (spawn f)") auto
  then obtain d where "d \<in> set ds" "line i = cur_line (lCur (diag_range d)) + 1"
    "column i = cur_column (lCur (diag_range d)) + 1"
    by (auto simp: convertDiagnosticsToIssues_def)
  with f ds that show ?thesis
    by blast
qed

lemma lintFile_unparseable:
  assumes "json_parse out = None"
  shows "\<exists>e. lintFile json_parse f (Closed code out err) = Inl e
           \<or> lintFile json_parse f (Closed code out err) = Inr []"
  using assms by (simp add: lintFile_def)

lemma lintFile_spawn_failed: "\<exists>e. lintFile json_parse f (SpawnFailed m) = Inl e"
  by (simp add: lintFile_def)

text \<open>The two sample runs.\<close>

lemma Statix_lint_two_reports:
  "Statix_lint [inherit_json \<mapsto> inherit_report, origin_json \<mapsto> origin_report] sample_time
     (rejects (exec_error two_reports_stdout)) [''test.nix'', ''error.nix''] None
   = Inr statix_document"
  by code_simp

lemma NixfTidy_lint_unused:
  "NixfTidy_lint [unused_json \<mapsto> JArray [unused_diagnostic]] sample_time
     (every_file (Closed (Some 0) unused_json [])) [''a.nix''] = Inr nixf_document"
  by code_simp


section \<open>The claims about the lint adapters\<close>

text \<open>
  C1. In every LintResult produced by \<open>Statix.lint\<close> or by \<open>NixfTidy.lint\<close>, \<open>errorCount\<close> is
  the number of issues of severity \<open>error\<close> and \<open>warningCount\<close> the number of issues of
  severity \<open>warning\<close>.
\<close>

theorem counts_match_issues:
  "(Statix_lint json_parse now execFileAsync filePaths configPath = Inr r \<longrightarrow>
      errorCount r = length (filter (\<lambda>i. severity i = SevError) (issues r)) \<and>
      warningCount r = length (filter (\<lambda>i. severity i = SevWarning) (issues r))) \<and>
   (NixfTidy_lint json_parse' now' spawn filePaths' = Inr r' \<longrightarrow>
      errorCount r' = length (filter (\<lambda>i. severity i = SevError) (issues r')) \<and>
      warningCount r' = length (filter (\<lambda>i. severity i = SevWarning) (issues r')))"
proof (intro conjI impI)
  assume "Statix_lint json_parse now execFileAsync filePaths configPath = Inr r"
  then obtain results where r: "r = createLintData now filePaths results"
    by (rule Statix_lint_cases) blast+
  show "errorCount r = length (filter (\<lambda>i. severity i = SevError) (issues r))"
    by (simp add: r createLintData_def countBySeverity_def Let_def)
  show "warningCount r = length (filter (\<lambda>i. severity i = SevWarning) (issues r))"
    by (simp add: r createLintData_def countBySeverity_def Let_def)
next
  assume b: "NixfTidy_lint json_parse' now' spawn filePaths' = Inr r'"
  then show "errorCount r' = length (filter (\<lambda>i. severity i = SevError) (issues r'))"
    by (auto simp: NixfTidy_lint_def NixfTidy_countBySeverity_def Let_def)
  from b show "warningCount r' = length (filter (\<lambda>i. severity i = SevWarning) (issues r'))"
    by (auto simp: NixfTidy_lint_def NixfTidy_countBySeverity_def Let_def)
qed

theorem counts_match_issues_witness:
  "Statix_lint [inherit_json \<mapsto> inherit_report, origin_json \<mapsto> origin_report] sample_time
     (rejects (exec_error two_reports_stdout)) [''test.nix'', ''error.nix''] None
     = Inr statix_document \<and>
   errorCount statix_document
     = length (filter (\<lambda>i. severity i = SevError) (issues statix_document)) \<and>
   warningCount statix_document
     = length (filter (\<lambda>i. severity i = SevWarning) (issues statix_document)) \<and>
   errorCount statix_document = 1 \<and> warningCount statix_document = 1 \<and>
   NixfTidy_lint [unused_json \<mapsto> JArray [unused_diagnostic]] sample_time
     (every_file (Closed (Some 0) unused_json [])) [''a.nix''] = Inr nixf_document \<and>
   errorCount nixf_document
     = length (filter (\<lambda>i. severity i = SevError) (issues nixf_document)) \<and>
   warningCount nixf_document
     = length (filter (\<lambda>i. severity i = SevWarning) (issues nixf_document)) \<and>
   errorCount nixf_document = 0 \<and> warningCount nixf_document = 1"
proof -
  note c = counts_match_issues [of
      "[inherit_json \<mapsto> inherit_report, origin_json \<mapsto> origin_report]" sample_time
      "rejects (exec_error two_reports_stdout)" "[''test.nix'', ''error.nix'']" None statix_document
      "[unused_json \<mapsto> JArray [unused_diagnostic]]" sample_time
      "every_file (Closed (Some 0) unused_json [])" "[''a.nix'']" nixf_document]
  have "errorCount statix_document = 1" "warningCount statix_document = 1"
    "errorCount nixf_document = 0" "warningCount nixf_document = 1"
    by (simp_all add: statix_document_def nixf_document_def)
  with c Statix_lint_two_reports NixfTidy_lint_unused show ?thesis
    by blast
qed

text \<open>
  C10. Parsing the output of Statix is all or nothing: when one of the non-empty lines of
  the trimmed output fails to parse as JSON, \<open>parseResults\<close> returns the empty list, and
  the diagnostics of the well-formed lines are discarded with it.
\<close>

theorem ndjson_all_or_nothing:
  "\<exists>l \<in> set (filter (\<lambda>l. l \<noteq> []) (split CHR 0x0A (trim stdout))). json_parse l = None
     \<Longrightarrow> parseResults json_parse (Some stdout) = []"
  using parseResults_failing_line by blast

theorem ndjson_all_or_nothing_witness:
  "''invalid json output'' \<in> set (filter (\<lambda>l. l \<noteq> []) (split CHR 0x0A (trim mixed_stdout))) \<and>
   [inherit_json \<mapsto> inherit_report] ''invalid json output'' = None \<and>
   [inherit_json \<mapsto> inherit_report] inherit_json = Some inherit_report \<and>
   parseResults [inherit_json \<mapsto> inherit_report] (Some mixed_stdout) = []"
proof -
  have p: "[inherit_json \<mapsto> inherit_report] ''invalid json output'' = None"
    by (simp add: inherit_json_def)
  have m: "''invalid json output''
             \<in> set (filter (\<lambda>l. l \<noteq> []) (split CHR 0x0A (trim mixed_stdout)))"
    by code_simp
  from m p have "\<exists>l \<in> set (filter (\<lambda>l. l \<noteq> []) (split CHR 0x0A (trim mixed_stdout))).
        [inherit_json \<mapsto> inherit_report] l = None"
    by blast
  then have r: "parseResults [inherit_json \<mapsto> inherit_report] (Some mixed_stdout) = []"
    by (rule ndjson_all_or_nothing)
  have q: "[inherit_json \<mapsto> inherit_report] inherit_json = Some inherit_report"
    by simp
  from m p q r show ?thesis
    by blast
qed

text \<open>
  C4. The position normalizer of \<open>NixfTidy\<close> maps every native 0-based pair (line, column)
  to (line + 1, column + 1), so that native (0, 4) becomes (1, 5); and for Statix, which
  reports a character offset only, the line of every issue is the constant 1.
\<close>

theorem position_normalization:
  "map line (convertDiagnosticsToIssues filePath diagnostics)
     = map (\<lambda>d. cur_line (lCur (diag_range d)) + 1) diagnostics \<and>
   map column (convertDiagnosticsToIssues filePath diagnostics)
     = map (\<lambda>d. cur_column (lCur (diag_range d)) + 1) diagnostics \<and>
   (cur_line (lCur (diag_range d)) = 0 \<and> cur_column (lCur (diag_range d)) = 4 \<longrightarrow>
      map (\<lambda>i. (line i, column i)) (convertDiagnosticsToIssues filePath [d]) = [(1, 5)]) \<and>
   (NixfTidy_lint json_parse' now' spawn filePaths' = Inr r' \<longrightarrow>
      (\<forall>i \<in> set (issues r'). \<exists>f \<in> set filePaths'. \<exists>ds.
          lintFile json_parse' f (spawn f) = Inr ds \<and>
          (\<exists>d \<in> set ds. line i = cur_line (lCur (diag_range d)) + 1
                      \<and> column i = cur_column (lCur (diag_range d)) + 1))) \<and>
   (\<forall>i \<in> set (extractIssues results). line i = 1) \<and>
   (Statix_lint json_parse now execFileAsync filePaths configPath = Inr r \<longrightarrow>
      (\<forall>i \<in> set (issues r). line i = 1))"
proof (intro conjI impI ballI)
  show "map line (convertDiagnosticsToIssues filePath diagnostics)
          = map (\<lambda>d. cur_line (lCur (diag_range d)) + 1) diagnostics"
    by (simp add: convertDiagnosticsToIssues_def comp_def)
  show "map column (convertDiagnosticsToIssues filePath diagnostics)
          = map (\<lambda>d. cur_column (lCur (diag_range d)) + 1) diagnostics"
    by (simp add: convertDiagnosticsToIssues_def comp_def)
next
  assume "cur_line (lCur (diag_range d)) = 0 \<and> cur_column (lCur (diag_range d)) = 4"
  then show "map (\<lambda>i. (line i, column i)) (convertDiagnosticsToIssues filePath [d]) = [(1, 5)]"
    by (simp add: convertDiagnosticsToIssues_def)
next
  fix i
  assume "NixfTidy_lint json_parse' now' spawn filePaths' = Inr r'" and "i \<in> set (issues r')"
  then have "i \<in> set (lint_loop json_parse' spawn filePaths' [])"
    by (simp add: NixfTidy_lint_issues)
  then show "\<exists>f \<in> set filePaths'. \<exists>ds.
          lintFile json_parse' f (spawn f) = Inr ds \<and>
          (\<exists>d \<in> set ds. line i = cur_line (lCur (diag_range d)) + 1
                      \<and> column i = cur_column (lCur (diag_range d)) + 1)"
    by (rule NixfTidy_issue_origin) blast
next
  fix i
  assume "i \<in> set (extractIssues results)"
  then show "line i = 1"
    by (rule extractIssues_line)
next
  fix i
  assume "Statix_lint json_parse now execFileAsync filePaths configPath = Inr r"
  then obtain results' where "r = createLintData now filePaths results'"
    by (rule Statix_lint_cases) blast+
  moreover assume "i \<in> set (issues r)"
  ultimately show "line i = 1"
    by (simp add: createLintData_issues extractIssues_line)
qed

theorem position_normalization_witness:
  "cur_line (lCur (diag_range unused_diagnostic)) = 0 \<and>
   cur_column (lCur (diag_range unused_diagnostic)) = 4 \<and>
   map (\<lambda>i. (line i, column i)) (convertDiagnosticsToIssues ''a.nix'' [unused_diagnostic])
     = [(1, 5)] \<and>
   NixfTidy_lint [unused_json \<mapsto> JArray [unused_diagnostic]] sample_time
     (every_file (Closed (Some 0) unused_json [])) [''a.nix''] = Inr nixf_document \<and>
   map (\<lambda>i. (line i, column i)) (issues nixf_document) = [(1, 5)] \<and>
   Statix_lint [inherit_json \<mapsto> inherit_report, origin_json \<mapsto> origin_report] sample_time
     (rejects (exec_error two_reports_stdout)) [''test.nix'', ''error.nix''] None
     = Inr statix_document \<and>
   map line (issues statix_document) = [1, 1] \<and>
   map line (extractIssues [inherit_report, origin_report]) = [1, 1]"
proof -
  note n = position_normalization [of "''a.nix''" "[unused_diagnostic]" unused_diagnostic
      "[unused_json \<mapsto> JArray [unused_diagnostic]]" sample_time
      "every_file (Closed (Some 0) unused_json [])" "[''a.nix'']" nixf_document
      "[inherit_report, origin_report]"
      "[inherit_json \<mapsto> inherit_report, origin_json \<mapsto> origin_report]" sample_time
      "rejects (exec_error two_reports_stdout)" "[''test.nix'', ''error.nix'']" None statix_document]
  have h: "cur_line (lCur (diag_range unused_diagnostic)) = 0
           \<and> cur_column (lCur (diag_range unused_diagnostic)) = 4"
    by (simp add: unused_diagnostic_def)
  with n have c: "map (\<lambda>i. (line i, column i))
      (convertDiagnosticsToIssues ''a.nix'' [unused_diagnostic]) = [(1, 5)]"
    by blast
  have l: "length (issues statix_document) = 2"
    "length (extractIssues [inherit_report, origin_report]) = 2"
    "map (\<lambda>i. (line i, column i)) (issues nixf_document) = [(1, 5)]"
    by (simp_all add: statix_document_def nixf_document_def extractIssues_def
        inherit_report_def origin_report_def)
  from n Statix_lint_two_reports have "\<forall>i \<in> set (issues statix_document). line i = 1"
    by blast
  then have "map line (issues statix_document) = replicate (length (issues statix_document)) 1"
    by (simp add: map_replicate_const [symmetric])
  with l have s: "map line (issues statix_document) = [1, 1]"
    by (simp add: numeral_2_eq_2)
  from n have "\<forall>i \<in> set (extractIssues [inherit_report, origin_report]). line i = 1"
    by blast
  then have "map line (extractIssues [inherit_report, origin_report])
      = replicate (length (extractIssues [inherit_report, origin_report])) 1"
    by (simp add: map_replicate_const [symmetric])
  with l have e: "map line (extractIssues [inherit_report, origin_report]) = [1, 1]"
    by (simp add: numeral_2_eq_2)
  from h c l s e Statix_lint_two_reports NixfTidy_lint_unused show ?thesis
    by blast
qed

text \<open>
  C5, as it is stated: every issue of either adapter has a line and a column of at least
  1, also an issue of Statix whose suggestion starts at character offset 0. For that
  suggestion the adapter emits column 0.
\<close>

theorem statix_column_zero:
  "Statix_lint [origin_json \<mapsto> origin_report] sample_time (rejects (exec_error origin_json))
     [''error.nix''] None
   = Inr \<lparr> timestamp = sample_time, files = [''error.nix''],
           issues = [\<lparr> issue_file = ''/path/to/error.nix'', line = 1, column = 0,
                        severity = SevError, message = ''syntax error [E01]'',
                        rule = Some ''E01'' \<rparr>],
           errorCount = 1, warningCount = 0 \<rparr>"
  by code_simp

text \<open>
  C5, amended. Every issue of \<open>NixfTidy.lint\<close> has line and column one more than the native
  pair, hence at least 1 when the native 0-based pair is not negative. Every issue of
  \<open>Statix.lint\<close> has line 1, and its column is the character offset \<open>at.from\<close> of its
  suggestion, unchanged: the columns of the issues are those offsets, in order.
\<close>

theorem positions_of_issues:
  "(NixfTidy_lint json_parse' now' spawn filePaths' = Inr r' \<and>
    (\<forall>f \<in> set filePaths'. \<forall>ds. lintFile json_parse' f (spawn f) = Inr ds \<longrightarrow>
        (\<forall>d \<in> set ds. 0 \<le> cur_line (lCur (diag_range d))
                     \<and> 0 \<le> cur_column (lCur (diag_range d)))) \<longrightarrow>
      (\<forall>i \<in> set (issues r'). 1 \<le> line i \<and> 1 \<le> column i)) \<and>
   (Statix_lint json_parse now execFileAsync filePaths configPath = Inr r \<longrightarrow>
      (\<forall>i \<in> set (issues r). line i = 1) \<and>
      (\<exists>results. map column (issues r)
                   = concat (map (\<lambda>report. map at_from (suggestions report)) results) \<and>
         (results = [] \<or>
          (\<exists>e so. execFileAsync ''statix'' (buildArgs filePaths configPath) = Rejected e \<and>
                  err_stdout e = Some so \<and> results = parseResults json_parse so))))"
proof (intro conjI impI ballI)
  fix i
  assume a: "NixfTidy_lint json_parse' now' spawn filePaths' = Inr r' \<and>
    (\<forall>f \<in> set filePaths'. \<forall>ds. lintFile json_parse' f (spawn f) = Inr ds \<longrightarrow>
        (\<forall>d \<in> set ds. 0 \<le> cur_line (lCur (diag_range d))
                     \<and> 0 \<le> cur_column (lCur (diag_range d))))"
    and m: "i \<in> set (issues r')"
  from a have "NixfTidy_lint json_parse' now' spawn filePaths' = Inr r'"
    by blast
  with m have "i \<in> set (lint_loop json_parse' spawn filePaths' [])"
    by (simp add: NixfTidy_lint_issues)
  then obtain f ds d where "f \<in> set filePaths'" "lintFile json_parse' f (spawn f) = Inr ds"
    "d \<in> set ds" and i: "line i = cur_line (lCur (diag_range d)) + 1"
    "column i = cur_column (lCur (diag_range d)) + 1"
    by (rule NixfTidy_issue_origin)
  with a have "0 \<le> cur_line (lCur (diag_range d)) \<and> 0 \<le> cur_column (lCur (diag_range d))"
    by blast
  with i show "1 \<le> line i" and "1 \<le> column i"
    by simp_all
next
  fix i
  assume "Statix_lint json_parse now execFileAsync filePaths configPath = Inr r"
  then obtain results' where "r = createLintData now filePaths results'"
    by (rule Statix_lint_cases) blast+
  moreover assume "i \<in> set (issues r)"
  ultimately show "line i = 1"
    by (simp add: createLintData_issues extractIssues_line)
next
  assume "Statix_lint json_parse now execFileAsync filePaths configPath = Inr r"
  then show "\<exists>results. map column (issues r)
                   = concat (map (\<lambda>report. map at_from (suggestions report)) results) \<and>
         (results = [] \<or>
          (\<exists>e so. execFileAsync ''statix'' (buildArgs filePaths configPath) = Rejected e \<and>
                  err_stdout e = Some so \<and> results = parseResults json_parse so))"
  proof (rule Statix_lint_cases)
    assume "r = createLintData now filePaths []"
    then have "map column (issues r)
                 = concat (map (\<lambda>report. map at_from (suggestions report)) [])"
      by (simp add: createLintData_issues extractIssues_def)
    then show ?thesis
      by blast
  next
    fix e so
    assume "execFileAsync ''statix'' (buildArgs filePaths configPath) = Rejected e"
      and "err_stdout e = Some so"
      and "r = createLintData now filePaths (parseResults json_parse so)"
    moreover from this have "map column (issues r)
        = concat (map (\<lambda>report. map at_from (suggestions report)) (parseResults json_parse so))"
      by (simp add: createLintData_issues extractIssues_column)
    ultimately show ?thesis
      by blast
  qed
qed

theorem positions_of_issues_witness:
  "NixfTidy_lint [unused_json \<mapsto> JArray [unused_diagnostic]] sample_time
     (every_file (Closed (Some 0) unused_json [])) [''a.nix''] = Inr nixf_document \<and>
   lintFile [unused_json \<mapsto> JArray [unused_diagnostic]] ''a.nix''
     (every_file (Closed (Some 0) unused_json []) ''a.nix'') = Inr [unused_diagnostic] \<and>
   0 \<le> cur_line (lCur (diag_range unused_diagnostic)) \<and>
   0 \<le> cur_column (lCur (diag_range unused_diagnostic)) \<and>
   length (issues nixf_document) = 1 \<and>
   list_all (\<lambda>i. 1 \<le> line i \<and> 1 \<le> column i) (issues nixf_document) \<and>
   Statix_lint [inherit_json \<mapsto> inherit_report, origin_json \<mapsto> origin_report] sample_time
     (rejects (exec_error two_reports_stdout)) [''test.nix'', ''error.nix''] None
     = Inr statix_document \<and>
   length (issues statix_document) = 2 \<and>
   list_all (\<lambda>i. line i = 1) (issues statix_document) \<and>
   map column (issues statix_document) = [10, 0]"
proof -
  note p = positions_of_issues [of
      "[unused_json \<mapsto> JArray [unused_diagnostic]]" sample_time
      "every_file (Closed (Some 0) unused_json [])" "[''a.nix'']" nixf_document
      "[inherit_json \<mapsto> inherit_report, origin_json \<mapsto> origin_report]" sample_time
      "rejects (exec_error two_reports_stdout)" "[''test.nix'', ''error.nix'']" None statix_document]
  have f: "lintFile [unused_json \<mapsto> JArray [unused_diagnostic]] ''a.nix''
     (every_file (Closed (Some 0) unused_json []) ''a.nix'') = Inr [unused_diagnostic]"
    by code_simp
  have d: "0 \<le> cur_line (lCur (diag_range unused_diagnostic))"
    "0 \<le> cur_column (lCur (diag_range unused_diagnostic))"
    by (simp_all add: unused_diagnostic_def)
  from f d have "\<forall>f \<in> set [''a.nix'']. \<forall>ds.
      lintFile [unused_json \<mapsto> JArray [unused_diagnostic]] f
        (every_file (Closed (Some 0) unused_json []) f) = Inr ds \<longrightarrow>
      (\<forall>d \<in> set ds. 0 \<le> cur_line (lCur (diag_range d))
                   \<and> 0 \<le> cur_column (lCur (diag_range d)))"
    by simp
  with p NixfTidy_lint_unused
  have "\<forall>i \<in> set (issues nixf_document). 1 \<le> line i \<and> 1 \<le> column i"
    by blast
  then have n: "list_all (\<lambda>i. 1 \<le> line i \<and> 1 \<le> column i) (issues nixf_document)"
    by (simp add: list_all_iff)
  from p Statix_lint_two_reports have "\<forall>i \<in> set (issues statix_document). line i = 1"
    by blast
  then have s: "list_all (\<lambda>i. line i = 1) (issues statix_document)"
    by (simp add: list_all_iff)
  have l: "length (issues nixf_document) = 1" "length (issues statix_document) = 2"
    "map column (issues statix_document) = [10, 0]"
    by (simp_all add: nixf_document_def statix_document_def)
  from f d n s l Statix_lint_two_reports NixfTidy_lint_unused show ?thesis
    by blast
qed

text \<open>
  C6. When the standard output is not valid JSON, the adapters degrade to no issues and do
  not reject. For Statix: when \<open>JSON.parse\<close> fails on one of the lines, \<open>parseResults\<close>
  returns the empty list, and \<open>lint\<close> resolves with no issue and both counts 0. For
  nixf-tidy: a file whose output \<open>JSON.parse\<close> rejects contributes no issue; \<open>lint\<close> of
  that file alone resolves with no issue and both counts 0, and among other files the
  issues are those of the run without it.
\<close>

theorem malformed_json_gives_no_issues:
  "((\<exists>l \<in> set (filter (\<lambda>l. l \<noteq> []) (split CHR 0x0A (trim out))). json_parse l = None) \<longrightarrow>
      parseResults json_parse (Some out) = [] \<and>
      (execFileAsync ''statix'' (buildArgs filePaths configPath) = Rejected e \<and>
       err_stdout e = Some (Some out) \<longrightarrow>
         Statix_lint json_parse now execFileAsync filePaths configPath
           = Inr \<lparr> timestamp = now, files = filePaths, issues = [], errorCount = 0,
                   warningCount = 0 \<rparr>)) \<and>
   (spawn filePath = Closed code out' err \<and> json_parse' out' = None \<longrightarrow>
      NixfTidy_lint json_parse' now' spawn [filePath]
        = Inr \<lparr> timestamp = now', files = [filePath], issues = [], errorCount = 0,
                warningCount = 0 \<rparr> \<and>
      map_sum id issues (NixfTidy_lint json_parse' now' spawn (earlier @ filePath # later))
        = map_sum id issues (NixfTidy_lint json_parse' now' spawn (earlier @ later)))"
proof (intro conjI impI)
  assume "\<exists>l \<in> set (filter (\<lambda>l. l \<noteq> []) (split CHR 0x0A (trim out))). json_parse l = None"
  then show p: "parseResults json_parse (Some out) = []"
    using parseResults_failing_line by blast
  assume "execFileAsync ''statix'' (buildArgs filePaths configPath) = Rejected e \<and>
       err_stdout e = Some (Some out)"
  then have "Statix_lint json_parse now execFileAsync filePaths configPath =
           Inr (createLintData now filePaths (parseResults json_parse (Some out)))"
    by (simp add: Statix_lint_def Let_def isExecError_def)
  with p show "Statix_lint json_parse now execFileAsync filePaths configPath
           = Inr \<lparr> timestamp = now, files = filePaths, issues = [], errorCount = 0,
                   warningCount = 0 \<rparr>"
    by (simp add: createLintData_empty)
next
  assume a: "spawn filePath = Closed code out' err \<and> json_parse' out' = None"
  then have "\<exists>e. lintFile json_parse' filePath (spawn filePath) = Inl e
               \<or> lintFile json_parse' filePath (spawn filePath) = Inr []"
    using lintFile_unparseable [of json_parse' out' filePath code err] by simp
  then have c: "(case lintFile json_parse' filePath (spawn filePath) of
                   Inr ds \<Rightarrow> convertDiagnosticsToIssues filePath ds | Inl e \<Rightarrow> []) = []"
    by (auto simp: convertDiagnosticsToIssues_def)
  then show "NixfTidy_lint json_parse' now' spawn [filePath]
        = Inr \<lparr> timestamp = now', files = [filePath], issues = [], errorCount = 0,
                warningCount = 0 \<rparr>"
    by (simp add: NixfTidy_lint_def Let_def lint_loop_concat NixfTidy_countBySeverity_def)
  from c show "map_sum id issues
          (NixfTidy_lint json_parse' now' spawn (earlier @ filePath # later))
        = map_sum id issues (NixfTidy_lint json_parse' now' spawn (earlier @ later))"
    by (simp add: NixfTidy_lint_def Let_def lint_loop_concat)
qed

theorem malformed_json_gives_no_issues_witness:
  "''invalid json output''
     \<in> set (filter (\<lambda>l. l \<noteq> []) (split CHR 0x0A (trim ''invalid json output''))) \<and>
   Map.empty ''invalid json output'' = (None :: StatixReport option) \<and>
   rejects (exec_error ''invalid json output'') ''statix'' (buildArgs [''test.nix''] None)
     = Rejected (exec_error ''invalid json output'') \<and>
   err_stdout (exec_error ''invalid json output'') = Some (Some ''invalid json output'') \<and>
   parseResults Map.empty (Some ''invalid json output'') = [] \<and>
   Statix_lint Map.empty sample_time (rejects (exec_error ''invalid json output''))
     [''test.nix''] None = Inr (clean_document [''test.nix'']) \<and>
   every_file (Closed (Some 0) ''invalid json'' []) ''test.nix''
     = Closed (Some 0) ''invalid json'' [] \<and>
   [unused_json \<mapsto> JArray [unused_diagnostic]] ''invalid json'' = None \<and>
   NixfTidy_lint [unused_json \<mapsto> JArray [unused_diagnostic]] sample_time
     (every_file (Closed (Some 0) ''invalid json'' [])) [''test.nix'']
     = Inr (clean_document [''test.nix''])"
proof -
  note m = malformed_json_gives_no_issues [of "''invalid json output''" Map.empty
      "rejects (exec_error ''invalid json output'')" "[''test.nix'']" None
      "exec_error ''invalid json output''" sample_time
      "every_file (Closed (Some 0) ''invalid json'' [])" "''test.nix''" "Some 0"
      "''invalid json''" "[]" "[unused_json \<mapsto> JArray [unused_diagnostic]]" sample_time
      "[]" "[]"]
  have l: "''invalid json output''
     \<in> set (filter (\<lambda>l. l \<noteq> []) (split CHR 0x0A (trim ''invalid json output'')))"
    by code_simp
  have n: "Map.empty ''invalid json output'' = (None :: StatixReport option)"
    by simp
  have r: "rejects (exec_error ''invalid json output'') ''statix'' (buildArgs [''test.nix''] None)
     = Rejected (exec_error ''invalid json output'')"
    "err_stdout (exec_error ''invalid json output'') = Some (Some ''invalid json output'')"
    by (simp_all add: rejects_def exec_error_def)
  have s: "every_file (Closed (Some 0) ''invalid json'' []) ''test.nix''
     = Closed (Some 0) ''invalid json'' []"
    "[unused_json \<mapsto> JArray [unused_diagnostic]] ''invalid json'' = None"
    by (simp_all add: every_file_def unused_json_def)
  from l n have "\<exists>l \<in> set (filter (\<lambda>l. l \<noteq> []) (split CHR 0x0A (trim ''invalid json output''))).
      Map.empty l = (None :: StatixReport option)"
    by blast
  with m r s have "parseResults Map.empty (Some ''invalid json output'') = []"
    "Statix_lint Map.empty sample_time (rejects (exec_error ''invalid json output''))
       [''test.nix''] None = Inr (clean_document [''test.nix''])"
    "NixfTidy_lint [unused_json \<mapsto> JArray [unused_diagnostic]] sample_time
       (every_file (Closed (Some 0) ''invalid json'' [])) [''test.nix'']
       = Inr (clean_document [''test.nix''])"
    by (simp_all add: clean_document_def)
  with l n r s show ?thesis
    by blast
qed

text \<open>
  C7, as it is stated: when the process of the tool fails to start, \<open>lint\<close> rejects
  instead of returning a document. \<open>NixfTidy.lint\<close> returns a document with no issue
  when the process of its one file fails to start.
\<close>

theorem nixf_spawn_failure_absorbed:
  "NixfTidy_lint [unused_json \<mapsto> JArray [unused_diagnostic]] sample_time
     (every_file (SpawnFailed ''spawn nixf-tidy ENOENT'')) [''a.nix'']
   = Inr (clean_document [''a.nix''])"
  by code_simp

text \<open>
  C7, amended. When the process of nixf-tidy fails to start, \<open>NixfTidy.lint\<close> does not
  reject: it resolves with a document, whatever the processes do; a file whose process
  failed to start contributes no issue, the issues being those of the run without that
  file; and the document has no issue and both counts 0 when the process of every file
  failed to start. (What \<open>Statix.lint\<close> does when its process fails to start is left out.)
\<close>

theorem nixf_start_failure_resolves:
  "(\<exists>r. NixfTidy_lint json_parse now spawn filePaths = Inr r) \<and>
   ((\<forall>f \<in> set filePaths. \<exists>m. spawn f = SpawnFailed m) \<longrightarrow>
      NixfTidy_lint json_parse now spawn filePaths
        = Inr \<lparr> timestamp = now, files = filePaths, issues = [], errorCount = 0,
                warningCount = 0 \<rparr>) \<and>
   (spawn filePath = SpawnFailed m \<longrightarrow>
      map_sum id issues (NixfTidy_lint json_parse now spawn (earlier @ filePath # later))
        = map_sum id issues (NixfTidy_lint json_parse now spawn (earlier @ later)))"
proof (intro conjI impI)
  show "\<exists>r. NixfTidy_lint json_parse now spawn filePaths = Inr r"
    by (simp add: NixfTidy_lint_def Let_def)
next
  assume a: "\<forall>f \<in> set filePaths. \<exists>m. spawn f = SpawnFailed m"
  have "concat (map (\<lambda>f. case lintFile json_parse f (spawn f) of
                             Inr ds \<Rightarrow> convertDiagnosticsToIssues f ds
                           | Inl e \<Rightarrow> []) filePaths) = []"
  proof -
    have "\<And>f. f \<in> set filePaths \<Longrightarrow>
            (case lintFile json_parse f (spawn f) of
               Inr ds \<Rightarrow> convertDiagnosticsToIssues f ds | Inl e \<Rightarrow> []) = []"
    proof -
      fix f
      assume "f \<in> set filePaths"
      with a obtain m where "spawn f = SpawnFailed m"
        by blast
      then show "(case lintFile json_parse f (spawn f) of
               Inr ds \<Rightarrow> convertDiagnosticsToIssues f ds | Inl e \<Rightarrow> []) = []"
        by (simp add: lintFile_def)
    qed
    then show ?thesis
      by simp
  qed
  then show "NixfTidy_lint json_parse now spawn filePaths
        = Inr \<lparr> timestamp = now, files = filePaths, issues = [], errorCount = 0,
                warningCount = 0 \<rparr>"
    by (simp add: NixfTidy_lint_def Let_def lint_loop_concat NixfTidy_countBySeverity_def)
next
  assume "spawn filePath = SpawnFailed m"
  then show "map_sum id issues
          (NixfTidy_lint json_parse now spawn (earlier @ filePath # later))
        = map_sum id issues (NixfTidy_lint json_parse now spawn (earlier @ later))"
    by (simp add: NixfTidy_lint_def Let_def lint_loop_concat lintFile_def)
qed

theorem nixf_start_failure_resolves_witness:
  "every_file (SpawnFailed ''spawn nixf-tidy ENOENT'') ''a.nix''
     = SpawnFailed ''spawn nixf-tidy ENOENT'' \<and>
   NixfTidy_lint [unused_json \<mapsto> JArray [unused_diagnostic]] sample_time
     (every_file (SpawnFailed ''spawn nixf-tidy ENOENT'')) [''a.nix'']
     = Inr (clean_document [''a.nix'']) \<and>
   ((every_file (Closed (Some 0) unused_json []))
       (''b.nix'' := SpawnFailed ''spawn nixf-tidy ENOENT'')) ''b.nix''
     = SpawnFailed ''spawn nixf-tidy ENOENT'' \<and>
   NixfTidy_lint [unused_json \<mapsto> JArray [unused_diagnostic]] sample_time
     ((every_file (Closed (Some 0) unused_json []))
        (''b.nix'' := SpawnFailed ''spawn nixf-tidy ENOENT'')) [''a.nix'']
     = Inr nixf_document \<and>
   map_sum id issues
     (NixfTidy_lint [unused_json \<mapsto> JArray [unused_diagnostic]] sample_time
        ((every_file (Closed (Some 0) unused_json []))
           (''b.nix'' := SpawnFailed ''spawn nixf-tidy ENOENT'')) [''a.nix'', ''b.nix''])
     = Inr (issues nixf_document)"
proof -
  note a = nixf_start_failure_resolves [of "[unused_json \<mapsto> JArray [unused_diagnostic]]"
      sample_time "every_file (SpawnFailed ''spawn nixf-tidy ENOENT'')" "[''a.nix'']"]
  note c = nixf_start_failure_resolves [of "[unused_json \<mapsto> JArray [unused_diagnostic]]"
      sample_time "(every_file (Closed (Some 0) unused_json []))
         (''b.nix'' := SpawnFailed ''spawn nixf-tidy ENOENT'')" "[''a.nix'']"
      "''b.nix''" "''spawn nixf-tidy ENOENT''" "[''a.nix'']" "[]"]
  have s: "every_file (SpawnFailed ''spawn nixf-tidy ENOENT'') ''a.nix''
     = SpawnFailed ''spawn nixf-tidy ENOENT''"
    by (simp add: every_file_def)
  then have "\<forall>f \<in> set [''a.nix'']. \<exists>m.
      every_file (SpawnFailed ''spawn nixf-tidy ENOENT'') f = SpawnFailed m"
    by simp
  with a have n: "NixfTidy_lint [unused_json \<mapsto> JArray [unused_diagnostic]] sample_time
     (every_file (SpawnFailed ''spawn nixf-tidy ENOENT'')) [''a.nix'']
     = Inr (clean_document [''a.nix''])"
    by (simp add: clean_document_def)
  have f: "((every_file (Closed (Some 0) unused_json []))
       (''b.nix'' := SpawnFailed ''spawn nixf-tidy ENOENT'')) ''b.nix''
     = SpawnFailed ''spawn nixf-tidy ENOENT''"
    by simp
  have d: "NixfTidy_lint [unused_json \<mapsto> JArray [unused_diagnostic]] sample_time
        ((every_file (Closed (Some 0) unused_json []))
           (''b.nix'' := SpawnFailed ''spawn nixf-tidy ENOENT'')) [''a.nix'']
      = Inr nixf_document"
    by code_simp
  with c f have g: "map_sum id issues
     (NixfTidy_lint [unused_json \<mapsto> JArray [unused_diagnostic]] sample_time
        ((every_file (Closed (Some 0) unused_json []))
           (''b.nix'' := SpawnFailed ''spawn nixf-tidy ENOENT'')) [''a.nix'', ''b.nix''])
     = Inr (issues nixf_document)"
    by simp
  from s n f d g show ?thesis
    by blast
qed


section \<open>Facts about the parser of the nix-unit reporter\<close>

lemma match_test_line_name:
  assumes "match_test_line l = Some (g, n)"
  shows "n \<noteq> []"
  using assms by (auto simp: match_test_line_def Let_def split: option.splits if_splits)

lemma coherent_initial: "coherent initial"
  by (simp add: coherent_def initial_def)

lemma coherent_parse_line: "coherent st \<Longrightarrow> coherent (parse_line st l)"
  by (auto simp: coherent_def parse_line_def save_previous_def collect_error_detail_def Let_def
      dest: match_test_line_name split: option.splits if_splits)

lemma coherent_foldl: "coherent st \<Longrightarrow> coherent (foldl parse_line st ls)"
  by (induction ls arbitrary: st) (simp_all add: coherent_parse_line)

text \<open>The error section is entered at a failing test line and left at the next test line.\<close>

lemma in_error_section_parse_line:
  assumes "coherent st"
  shows "in_error_section (parse_line st l) =
     (if l = [] \<or> is_blank l \<or> starts_with ''warning:'' l then in_error_section st
      else case match_test_line l of
             Some (status_emoji, test_name) \<Rightarrow> status_emoji \<noteq> check_mark
           | None \<Rightarrow> in_error_section st)"
  using assms
  by (auto simp: coherent_def parse_line_def save_previous_def collect_error_detail_def Let_def
      split: option.splits if_splits)

text \<open>
  One turn of the loop keeps the equivalence between \<open>overall_reason\<close> being \<open>Failed\<close> and
  a failed test being due or a cross-check having fired; \<open>c\<close> stands for the cross-checks
  of the lines read so far.
\<close>

lemma reason_parse_line:
  assumes "coherent st" and "overall_reason st = Failed \<longleftrightarrow> due st \<or> c"
  shows "overall_reason (parse_line st l) = Failed \<longleftrightarrow>
           due (parse_line st l) \<or> c \<or>
           (\<not> (l = [] \<or> is_blank l \<or> starts_with ''warning:'' l) \<and> match_test_line l = None
            \<and> \<not> in_error_section st
            \<and> (case match_summary_line l of
                  Some (emoji, passed', total') \<Rightarrow> emoji = crying_face \<or> passed' \<noteq> total'
                | None \<Rightarrow> match_error_line l))"
proof (cases "l = [] \<or> is_blank l \<or> starts_with ''warning:'' l")
  case True
  then have "parse_line st l = st"
    by (auto simp: parse_line_def)
  with True assms show ?thesis
    by simp
next
  case live: False
  show ?thesis
  proof (cases "match_test_line l")
    case (Some gn)
    obtain g n where gn: "gn = (g, n)"
      by (cases gn)
    with Some have n: "n \<noteq> []"
      by (simp add: match_test_line_name)
    from assms have s: "due (save_previous st) \<longleftrightarrow> due st"
      "overall_reason (save_previous st) = overall_reason st"
      "\<not> in_error_section (save_previous st)"
      by (auto simp: due_def coherent_def save_previous_def create_test_def Let_def)
    show ?thesis
    proof (cases "g = check_mark")
      case True
      with live Some gn s assms show ?thesis
        by (simp add: parse_line_def Let_def due_def create_test_def)
    next
      case False
      with live Some gn show ?thesis
        by (simp add: parse_line_def Let_def due_def)
    qed
  next
    case None
    show ?thesis
    proof (cases "in_error_section st")
      case True
      with live None have "parse_line st l = collect_error_detail st l"
        by (simp add: parse_line_def)
      moreover have "due (collect_error_detail st l) \<longleftrightarrow> due st"
        "overall_reason (collect_error_detail st l) = overall_reason st"
        by (simp_all add: collect_error_detail_def due_def Let_def)
      ultimately show ?thesis
        using True None assms by simp
    next
      case quiet: False
      show ?thesis
      proof (cases "match_summary_line l")
        case (Some ept)
        obtain e p t where "ept = (e, p, t)"
          by (cases ept)
        with live None quiet Some assms show ?thesis
          by (auto simp: parse_line_def due_def)
      next
        case no_summary: None
        with live None quiet assms show ?thesis
          by (auto simp: parse_line_def due_def Let_def create_test_def)
      qed
    qed
  qed
qed

lemma cross_check_Cons:
  assumes "coherent st"
  shows "cross_check (in_error_section st) (l # ls) \<longleftrightarrow>
           (\<not> (l = [] \<or> is_blank l \<or> starts_with ''warning:'' l) \<and> match_test_line l = None
            \<and> \<not> in_error_section st
            \<and> (case match_summary_line l of
                  Some (emoji, passed', total') \<Rightarrow> emoji = crying_face \<or> passed' \<noteq> total'
                | None \<Rightarrow> match_error_line l))
           \<or> cross_check (in_error_section (parse_line st l)) ls"
  by (auto simp: in_error_section_parse_line [OF assms] split: option.splits)

lemma reason_foldl:
  assumes "coherent st" and "overall_reason st = Failed \<longleftrightarrow> due st \<or> c"
  shows "overall_reason (foldl parse_line st ls) = Failed \<longleftrightarrow>
           due (foldl parse_line st ls) \<or> c \<or> cross_check (in_error_section st) ls"
  using assms
proof (induction ls arbitrary: st c)
  case Nil
  then show ?case
    by simp
next
  case (Cons l ls)
  let ?now = "\<not> (l = [] \<or> is_blank l \<or> starts_with ''warning:'' l) \<and> match_test_line l = None
            \<and> \<not> in_error_section st
            \<and> (case match_summary_line l of
                  Some (emoji, passed', total') \<Rightarrow> emoji = crying_face \<or> passed' \<noteq> total'
                | None \<Rightarrow> match_error_line l)"
  from Cons.prems have "overall_reason (parse_line st l) = Failed \<longleftrightarrow>
      due (parse_line st l) \<or> (c \<or> ?now)"
    using reason_parse_line [of st c l] by blast
  with Cons.prems(1) have "overall_reason (foldl parse_line (parse_line st l) ls) = Failed \<longleftrightarrow>
      due (foldl parse_line (parse_line st l) ls) \<or> (c \<or> ?now)
      \<or> cross_check (in_error_section (parse_line st l)) ls"
    by (intro Cons.IH coherent_parse_line)
  moreover have "cross_check (in_error_section st) (l # ls) \<longleftrightarrow>
      ?now \<or> cross_check (in_error_section (parse_line st l)) ls"
    using Cons.prems(1) by (rule cross_check_Cons)
  ultimately show ?case
    by auto
qed

text \<open>After the loop: the tests of the document, and its reason.\<close>

lemma all_tests_parse:
  "all_tests (parse_and_save_output lines)
     = current_tests (error_module lines (remaining_test (foldl parse_line initial lines)))"
  by (simp add: all_tests_def parse_and_save_output_def Let_def create_test_result_def
      create_test_module_def)

lemma reason_parse:
  "reason (parse_and_save_output lines)
     = overall_reason (error_module lines (remaining_test (foldl parse_line initial lines)))"
  by (simp add: parse_and_save_output_def Let_def create_test_result_def)

lemma remaining_test_failed:
  assumes "coherent st"
  shows "list_ex (\<lambda>t. state t = Failed) (current_tests (remaining_test st)) \<longleftrightarrow> due st"
    and "overall_reason (remaining_test st) = overall_reason st"
    and "has_tests (remaining_test st) = has_tests st"
  using assms by (auto simp: remaining_test_def due_def coherent_def create_test_def Let_def)


text \<open>Without test lines the loop records the synthetic test at most once.\<close>

lemma evaluation_only_parse_line:
  assumes "evaluation_only lines st" and "match_test_line l = None" and "l \<in> set lines"
  shows "evaluation_only lines (parse_line st l)"
  using assms
  by (auto simp: evaluation_only_def parse_line_def Let_def list_ex_iff create_test_def
      create_test_error_def evaluation_test_def split: option.splits)

lemma evaluation_only_foldl:
  assumes "evaluation_only lines st" and "\<forall>l \<in> set ls. match_test_line l = None"
    and "set ls \<subseteq> set lines"
  shows "evaluation_only lines (foldl parse_line st ls)"
  using assms
proof (induction ls arbitrary: st)
  case Nil
  then show ?case
    by simp
next
  case (Cons l ls)
  then have "evaluation_only lines (parse_line st l)"
    by (intro evaluation_only_parse_line) simp_all
  with Cons show ?case
    by simp
qed

text \<open>What the command substitution keeps of the lines printed one per line.\<close>

lemma strip_trailing_newlines_keeps:
  assumes "c \<noteq> CHR 0x0A"
  shows "\<exists>rest. strip_trailing_newlines (xs @ [c] @ ys) = xs @ [c] @ rest"
proof (cases "\<forall>y \<in> set ys. y = CHR 0x0A")
  case True
  with assms have "strip_trailing_newlines (xs @ [c] @ ys) = xs @ [c] @ []"
    by (simp add: strip_trailing_newlines_def dropWhile_append)
  then show ?thesis
    by blast
next
  case False
  then have "strip_trailing_newlines (xs @ [c] @ ys)
      = xs @ [c] @ rev (dropWhile (\<lambda>c. c = CHR 0x0A) (rev ys))"
    by (auto simp: strip_trailing_newlines_def dropWhile_append)
  then show ?thesis
    by blast
qed

lemma printed_lines_contain:
  assumes "l \<in> set lines" and "l \<noteq> []" and "CHR 0x0A \<notin> set l"
  shows "\<exists>pre post. strip_trailing_newlines (concat (map (\<lambda>l. l @ [CHR 0x0A]) lines))
           = pre @ l @ post"
proof -
  from assms(1) obtain xs ys where lines: "lines = xs @ l # ys"
    by (auto simp: in_set_conv_decomp)
  from assms(2) obtain l' c where l: "l = l' @ [c]"
    by (cases l rule: rev_cases) auto
  with assms(3) have c: "c \<noteq> CHR 0x0A"
    by auto
  let ?before = "concat (map (\<lambda>l. l @ [CHR 0x0A]) xs)"
  let ?after = "CHR 0x0A # concat (map (\<lambda>l. l @ [CHR 0x0A]) ys)"
  have "concat (map (\<lambda>l. l @ [CHR 0x0A]) lines) = (?before @ l') @ [c] @ ?after"
    by (simp add: lines l)
  moreover from c obtain rest where
    "strip_trailing_newlines ((?before @ l') @ [c] @ ?after) = (?before @ l') @ [c] @ rest"
    using strip_trailing_newlines_keeps by blast
  ultimately have "strip_trailing_newlines (concat (map (\<lambda>l. l @ [CHR 0x0A]) lines))
      = ?before @ l @ rest"
    by (simp add: l)
  then show ?thesis
    by blast
qed

lemma match_error_line_not_empty: "match_error_line l \<Longrightarrow> l \<noteq> []"
  by (auto simp: match_error_line_def)


section \<open>The claims about the nix-unit reporter\<close>

text \<open>
  C2, as it is stated: the reason is \<open>failed\<close> if and only if a test case failed, or there
  are unhandled errors, or a synthetic compilation-error test was produced; in particular
  it is never \<open>failed\<close> while every test case passed. On a passing test followed by the
  summary line ``1/2 successful'' the reason is \<open>failed\<close> and the only test case passed.
\<close>

theorem failed_reason_with_passed_tests:
  "parse_and_save_output one_of_two
   = \<lparr> testModules =
         [\<lparr> moduleId = ''tests'',
             tests = [\<lparr> name = ''testA'', fullName = ''tests.testA'', state = Passed,
                        errors = [] \<rparr>] \<rparr>],
       reason = Failed \<rparr>"
  by code_simp

text \<open>
  C2, amended. The reason is \<open>failed\<close> if and only if a test case of the document has state
  \<open>failed\<close> (the synthetic compilation-error test is one), or a cross-check fired: outside
  an error section, a summary line with the crying face or with two different counts, or
  a line matching the error pattern. The parser writes no unhandled errors.
\<close>

theorem reason_failed_iff:
  "reason (parse_and_save_output lines) = Failed \<longleftrightarrow>
     (\<exists>t \<in> set (all_tests (parse_and_save_output lines)). state t = Failed)
     \<or> cross_check False lines"
proof -
  let ?st = "foldl parse_line initial lines"
  have co: "coherent ?st"
    by (simp add: coherent_foldl coherent_initial)
  have "overall_reason initial = Failed \<longleftrightarrow> due initial \<or> False"
    by (simp add: initial_def due_def)
  with coherent_initial have "overall_reason ?st = Failed \<longleftrightarrow>
      due ?st \<or> False \<or> cross_check (in_error_section initial) lines"
    by (rule reason_foldl)
  then have run: "overall_reason ?st = Failed \<longleftrightarrow> due ?st \<or> cross_check False lines"
    by (simp add: initial_def)
  show ?thesis
  proof (cases "\<not> has_tests (remaining_test ?st) \<and> length lines > 0")
    case True
    then show ?thesis
      by (simp add: all_tests_parse reason_parse error_module_def Let_def create_test_def)
  next
    case False
    then have "error_module lines (remaining_test ?st) = remaining_test ?st"
      by (auto simp: error_module_def)
    with run remaining_test_failed [OF co] show ?thesis
      by (simp add: all_tests_parse reason_parse list_ex_iff)
  qed
qed

theorem reason_failed_iff_witness:
  "reason (parse_and_save_output one_of_two) = Failed \<and>
   map state (all_tests (parse_and_save_output one_of_two)) = [Passed] \<and>
   cross_check False one_of_two \<and>
   reason (parse_and_save_output five_lines) = Failed \<and>
   map state (all_tests (parse_and_save_output five_lines)) = [Passed, Failed] \<and>
   \<not> cross_check False five_lines"
proof -
  have a1: "map state (all_tests (parse_and_save_output one_of_two)) = [Passed]"
    by code_simp
  have a2: "map state (all_tests (parse_and_save_output five_lines)) = [Passed, Failed]"
    by code_simp
  have c1: "cross_check False one_of_two"
    by code_simp
  have c2: "\<not> cross_check False five_lines"
    by code_simp
  from c1 have r1: "reason (parse_and_save_output one_of_two) = Failed"
    using reason_failed_iff [of one_of_two] by blast
  have "Failed \<in> set (map state (all_tests (parse_and_save_output five_lines)))"
    by (simp add: a2)
  then have "\<exists>t \<in> set (all_tests (parse_and_save_output five_lines)). state t = Failed"
    by (force simp: image_iff)
  then have r2: "reason (parse_and_save_output five_lines) = Failed"
    using reason_failed_iff [of five_lines] by blast
  from a1 a2 c1 c2 r1 r2 show ?thesis
    by blast
qed

text \<open>
  C3: the five lines of the specification's example. The parser gives two test cases,
  \<open>testA\<close> passed and \<open>testB\<close> failed with one error record, and the reason \<open>failed\<close>. The
  message of that record is not the two detail lines joined by a newline: the separator
  is the two characters backslash and n, and the summary line, read inside the error
  section, is collected as a third detail line.
\<close>

theorem five_lines_document:
  "parse_and_save_output five_lines
   = \<lparr> testModules =
         [\<lparr> moduleId = ''tests'',
             tests =
               [\<lparr> name = ''testA'', fullName = ''tests.testA'', state = Passed, errors = [] \<rparr>,
                \<lparr> name = ''testB'', fullName = ''tests.testB'', state = Failed,
                   errors =
                     [\<lparr> error_message =
                          ''detail1'' @ [CHR 0x5C, CHR ''n''] @ ''detail2'' @ [CHR 0x5C, CHR ''n'']
                          @ party_popper @ '' 1/2 successful'' \<rparr>] \<rparr>] \<rparr>],
       reason = Failed \<rparr>"
  by code_simp

text \<open>
  C9: three lines of output under a limit of two lines. Without \<open>--passthrough\<close> the array
  given to the parser holds the first two lines and nothing else: its length is the
  limit, not the limit plus one, and no truncation warning is in it.
\<close>

theorem direct_capture_drops_silently:
  "direct_capture 2 [''line 1'', ''line 2'', ''line 3''] = [''line 1'', ''line 2'']"
  by (simp add: direct_capture_def limit_output_def)

text \<open>With \<open>--passthrough\<close> the script stops at the first line it reads, whatever the limit.\<close>

lemma passthrough_stops_at_first_line:
  "0 < MAX_OUTPUT_LINES \<Longrightarrow> passthrough_capture MAX_OUTPUT_LINES (l # stdin) = Inl 1"
  by (simp add: passthrough_capture_def)

lemma passthrough_no_input: "passthrough_capture MAX_OUTPUT_LINES [] =
    (if MAX_OUTPUT_LINES = 0 then Inr [''Warning: Output truncated - too many lines''] else Inr [])"
  by (simp add: passthrough_capture_def)

text \<open>
  C8. When no line of the input is a test line and some line matches the error pattern,
  the document has exactly one module, named \<open>compilation\<close>, holding exactly one test
  case, named \<open>evaluation\<close> and failed, with one error record whose message contains a
  line of the input that matches the error pattern; and the reason is \<open>failed\<close>. The
  lines are lines: none contains a newline.
\<close>

theorem evaluation_failure_module:
  assumes "\<forall>l \<in> set lines. match_test_line l = None"
    and "\<exists>l \<in> set lines. match_error_line l"
    and "\<forall>l \<in> set lines. CHR 0x0A \<notin> set l"
  shows "\<exists>message' l pre post.
           parse_and_save_output lines
             = \<lparr> testModules = [\<lparr> moduleId = ''compilation'',
                                    tests = [evaluation_test message'] \<rparr>],
                 reason = Failed \<rparr>
           \<and> l \<in> set lines \<and> match_error_line l \<and> message' = pre @ l @ post"
proof -
  let ?st = "foldl parse_line initial lines"
  have "evaluation_only lines initial"
    by (simp add: evaluation_only_def initial_def)
  with assms(1) have only: "evaluation_only lines ?st"
    by (intro evaluation_only_foldl) simp_all
  then have rest: "remaining_test ?st = ?st"
    by (simp add: evaluation_only_def remaining_test_def)
  show ?thesis
  proof (cases "has_tests ?st")
    case True
    with only obtain l where l: "l \<in> set lines" "match_error_line l"
      and st: "current_tests ?st = [evaluation_test l]" "module_id ?st = ''compilation''"
        "overall_reason ?st = Failed"
      by (auto simp: evaluation_only_def list_ex_iff)
    from True have "error_module lines ?st = ?st"
      by (simp add: error_module_def)
    with rest st have "parse_and_save_output lines
        = \<lparr> testModules = [\<lparr> moduleId = ''compilation'', tests = [evaluation_test l] \<rparr>],
            reason = Failed \<rparr>"
      by (simp add: parse_and_save_output_def Let_def create_test_result_def
          create_test_module_def)
    moreover have "l = [] @ l @ []"
      by simp
    ultimately show ?thesis
      using l by blast
  next
    case False
    from assms(2) obtain l where l: "l \<in> set lines" "match_error_line l"
      by blast
    with assms(3) have "l \<noteq> []" "CHR 0x0A \<notin> set l"
      by (simp_all add: match_error_line_not_empty)
    with l(1) obtain pre post where
      m: "strip_trailing_newlines (concat (map (\<lambda>l. l @ [CHR 0x0A]) lines)) = pre @ l @ post"
      using printed_lines_contain by blast
    from l(1) have "length lines > 0"
      by (cases lines) auto
    with False only rest have "parse_and_save_output lines
        = \<lparr> testModules = [\<lparr> moduleId = ''compilation'',
              tests = [evaluation_test
                (strip_trailing_newlines (concat (map (\<lambda>l. l @ [CHR 0x0A]) lines)))] \<rparr>],
            reason = Failed \<rparr>"
      by (simp add: parse_and_save_output_def Let_def create_test_result_def
          create_test_module_def error_module_def evaluation_only_def create_test_def
          create_test_error_def evaluation_test_def)
    with l m show ?thesis
      by blast
  qed
qed

theorem evaluation_failure_module_witness:
  "list_all (\<lambda>l. match_test_line l = None) syntax_error_lines \<and>
   match_error_line ''error: syntax error, unexpected token'' \<and>
   ''error: syntax error, unexpected token'' \<in> set syntax_error_lines \<and>
   list_all (\<lambda>l. CHR 0x0A \<notin> set l) syntax_error_lines \<and>
   parse_and_save_output syntax_error_lines
     = \<lparr> testModules =
           [\<lparr> moduleId = ''compilation'',
               tests = [evaluation_test ''error: syntax error, unexpected token''] \<rparr>],
         reason = Failed \<rparr>"
proof -
  have t: "list_all (\<lambda>l. match_test_line l = None) syntax_error_lines"
    by code_simp
  have e: "match_error_line ''error: syntax error, unexpected token''"
    by code_simp
  have m: "''error: syntax error, unexpected token'' \<in> set syntax_error_lines"
    by (simp add: syntax_error_lines_def)
  have n: "list_all (\<lambda>l. CHR 0x0A \<notin> set l) syntax_error_lines"
    by (simp add: syntax_error_lines_def)
  have d: "parse_and_save_output syntax_error_lines
     = \<lparr> testModules =
           [\<lparr> moduleId = ''compilation'',
               tests = [evaluation_test ''error: syntax error, unexpected token''] \<rparr>],
         reason = Failed \<rparr>"
    by code_simp
  from t have t': "\<forall>l \<in> set syntax_error_lines. match_test_line l = None"
    by (simp add: list_all_iff)
  from n have n': "\<forall>l \<in> set syntax_error_lines. CHR 0x0A \<notin> set l"
    by (simp add: list_all_iff)
  from e m have e': "\<exists>l \<in> set syntax_error_lines. match_error_line l"
    by blast
  from evaluation_failure_module [OF t' e' n'] d
  have "\<exists>message'. \<lparr> testModules =
           [\<lparr> moduleId = ''compilation'',
               tests = [evaluation_test ''error: syntax error, unexpected token''] \<rparr>],
         reason = Failed \<rparr>
       = \<lparr> testModules = [\<lparr> moduleId = ''compilation'', tests = [evaluation_test message'] \<rparr>],
           reason = Failed \<rparr>"
    by auto
  with t e m n d show ?thesis
    by blast
qed

end
